theory Spec2Isabelle
  imports Complex_Main "HOL-Library.Word"
begin

unbundle bit_operations_syntax

section \<open>Machine types and the environment of wave.h\<close>

text \<open>
  wave.h fixes \<^verbatim>\<open>uint32_t\<close> as \<^verbatim>\<open>unsigned int\<close> and \<^verbatim>\<open>uint16_t\<close> as
  \<^verbatim>\<open>unsigned short\<close>; \<^verbatim>\<open>unsigned\<close> is therefore a 32-bit word, \<^verbatim>\<open>int\<close> a 32-bit
  two's complement word, \<^verbatim>\<open>unsigned long long\<close> a 64-bit word and \<^verbatim>\<open>char\<close> a byte.
  Arithmetic on words wraps as the C++ unsigned arithmetic does.

  A \<^verbatim>\<open>double\<close> is an IEEE 754 binary64 number, and a finite one is modelled by the real
  number it denotes. Every floating-point operation of the program computes the exact
  real result and rounds it to the nearest double, ties to even (\<open>round_double\<close> below);
  expressions are evaluated in \<^verbatim>\<open>double\<close>, without extended precision.
\<close>

type_synonym byte = "8 word"
type_synonym uint16_t = "16 word"
type_synonym uint32_t = "32 word"
type_synonym ulonglong = "64 word"
type_synonym double = real

text \<open>
  Storage that the program reads before writing it (a fresh \<^verbatim>\<open>new char[n]\<close>, the local
  \<^verbatim>\<open>char byte\<close> of \<^verbatim>\<open>ReadLittleEndian\<close> after a failed read) holds indeterminate bytes.
  They are a parameter of the model: \<open>U k\<close> is the byte found at position \<open>k\<close> of such
  storage, and every theorem holds for every \<open>U\<close>.
\<close>

type_synonym junk = "nat \<Rightarrow> byte"

text \<open>
  Behaviour the language leaves undefined, and double results that are not numbers,
  are values of the model: a function that can reach one returns \<open>fault + 'a\<close>.
  \<^item> \<open>DivideByZero\<close>: an integer division by zero;
  \<^item> \<open>BadShift\<close>: a shift by at least the width of the (promoted) left operand;
  \<^item> \<open>BadAccess\<close>: a read or write outside the bytes a pointer refers to;
  \<^item> \<open>BadConversion\<close>: a double converted to \<^verbatim>\<open>unsigned long long\<close> whose truncation is
    not representable;
  \<^item> \<open>NonFinite\<close>: a floating-point division by zero (the result is an infinity or NaN,
    which is not a real number);
  \<^item> \<open>DoubleDelete\<close>: \<^verbatim>\<open>delete[]\<close> of an array that was deleted before.
\<close>

datatype fault = DivideByZero | BadShift | BadAccess | BadConversion | NonFinite | DoubleDelete

subsection \<open>Double arithmetic\<close>

text \<open>
  \<open>exponent x\<close> is the binary exponent of a nonzero \<open>x\<close>, the \<open>e\<close> with
  \<open>2 ^ e \<le> \<bar>x\<bar> < 2 ^ (e + 1)\<close>, and \<open>ulp x\<close> the distance between the doubles around
  \<open>x\<close>: \<open>2 ^ (e - 52)\<close>, and \<open>2 ^ (- 1074)\<close> in the subnormal range. \<open>round_double x\<close> is
  the multiple of \<open>ulp x\<close> nearest to \<open>x\<close>, the even one of two equally near.
  A result too large for a double is an infinity in the program. The one operation that
  can produce it is the product in \<^verbatim>\<open>PutChannelAvg\<close>, whose only use is the conversion to
  \<^verbatim>\<open>unsigned long long\<close>, undefined for an infinity as for every value from \<open>2 ^ 64\<close> on;
  so \<open>round_double\<close> does not cut off large values.
\<close>

fun floor_log2 :: "nat \<Rightarrow> nat" where
  "floor_log2 n = (if n < 2 then 0 else Suc (floor_log2 (n div 2)))"

definition exponent :: "real \<Rightarrow> int" where
  "exponent x =
     (if 1 \<le> \<bar>x\<bar> then int (floor_log2 (nat \<lfloor>\<bar>x\<bar>\<rfloor>))
      else - int (Suc (floor_log2 (nat \<lceil>1 / \<bar>x\<bar>\<rceil> - 1))))"

definition ulp :: "real \<Rightarrow> real" where
  "ulp x = 2 powi (max (exponent x) (- 1022) - 52)"

definition round_half_even :: "real \<Rightarrow> int" where
  "round_half_even y =
     (let f = \<lfloor>y\<rfloor> in
      if y - of_int f < 1 / 2 then f
      else if 1 / 2 < y - of_int f then f + 1
      else if even f then f else f + 1)"

definition round_double :: "real \<Rightarrow> double" where
  "round_double x = of_int (round_half_even (x / ulp x)) * ulp x"

text \<open>
  The four operations on doubles (the divisor of \<open>double_div\<close> is nonzero where it is
  used), and the conversions of an \<^verbatim>\<open>unsigned\<close> and of an \<^verbatim>\<open>unsigned long long\<close> to
  \<^verbatim>\<open>double\<close>, which round as well.
\<close>

definition double_add :: "double \<Rightarrow> double \<Rightarrow> double" where
  "double_add x y = round_double (x + y)"

definition double_sub :: "double \<Rightarrow> double \<Rightarrow> double" where
  "double_sub x y = round_double (x - y)"

definition double_mul :: "double \<Rightarrow> double \<Rightarrow> double" where
  "double_mul x y = round_double (x * y)"

definition double_div :: "double \<Rightarrow> double \<Rightarrow> double" where
  "double_div x y = round_double (x / y)"

definition unsigned_to_double :: "nat \<Rightarrow> double" where
  "unsigned_to_double n = round_double (real n)"

definition ulonglong_to_double :: "ulonglong \<Rightarrow> double" where
  "ulonglong_to_double m = round_double (real (unat m))"

subsection \<open>Streams\<close>

text \<open>
  An input stream is the bytes not yet extracted and the value of \<^verbatim>\<open>good()\<close>.
  \<^verbatim>\<open>read(p, n)\<close> on a stream that is not good extracts nothing; on a good stream it
  extracts \<open>n\<close> bytes, or all that are left and then the stream is no longer good.
  The bytes extracted are returned; the caller stores them.
  \<^verbatim>\<open>ignore(n)\<close> extracts the same bytes and drops them.
  An output stream is the list of bytes written so far.
\<close>

record istream =
  content :: "byte list"
  good :: bool

type_synonym ostream = "byte list"

definition istream_read :: "nat \<Rightarrow> istream \<Rightarrow> byte list \<times> istream" where
  "istream_read n s =
     (if \<not> good s then ([], s)
      else if n \<le> length (content s)
        then (take n (content s), s\<lparr>content := drop n (content s)\<rparr>)
        else (content s, s\<lparr>content := [], good := False\<rparr>))"

definition istream_ignore :: "nat \<Rightarrow> istream \<Rightarrow> istream" where
  "istream_ignore n s = snd (istream_read n s)"

definition ostream_write :: "byte list \<Rightarrow> ostream \<Rightarrow> ostream" where
  "ostream_write bs s = s @ bs"

subsection \<open>ReadLittleEndian and WriteLittleEndian\<close>

text \<open>
  \<^verbatim>\<open>for (unsigned i = 0; i != sizeof(T); ++i)\<close> counts up from 0, so the loop runs while
  \<open>i < sizeof(T)\<close>. \<open>sizeof(T)\<close> is the number of bytes of the word type.
  In \<^verbatim>\<open>out |= (unsigned char)byte << 8*i\<close> the byte is promoted to \<^verbatim>\<open>int\<close>, shifted there,
  and the low bits of the result are or-ed into \<open>out\<close>.
\<close>

function ReadLittleEndian_loop ::
  "junk \<Rightarrow> nat \<Rightarrow> nat \<Rightarrow> istream \<Rightarrow> 'a::len word \<Rightarrow> 'a word \<times> istream" where
  "ReadLittleEndian_loop U i n s out =
     (if i < n then
        (let (got, s') = istream_read 1 s;
             byte = (case got of [] \<Rightarrow> U i | b # _ \<Rightarrow> b)
         in ReadLittleEndian_loop U (i + 1) n s'
              (out OR ucast (push_bit (8 * i) (ucast byte :: 32 word))))
      else (out, s))"
  by pat_completeness auto
termination
  by (relation "measure (\<lambda>(U, i, n, s, out). n - i)") auto

definition ReadLittleEndian :: "junk \<Rightarrow> istream \<Rightarrow> 'a::len word \<times> istream" where
  "ReadLittleEndian U s = ReadLittleEndian_loop U 0 (LENGTH('a) div 8) s 0"

function WriteLittleEndian_loop :: "nat \<Rightarrow> nat \<Rightarrow> 'a::len word \<Rightarrow> ostream \<Rightarrow> ostream" where
  "WriteLittleEndian_loop i n out s =
     (if i < n then
        WriteLittleEndian_loop (i + 1) n out
          (ostream_write [ucast (drop_bit (8 * i) out AND 0xff)] s)
      else s)"
  by pat_completeness auto
termination
  by (relation "measure (\<lambda>(i, n, out, s). n - i)") auto

definition WriteLittleEndian :: "'a::len word \<Rightarrow> ostream \<Rightarrow> ostream" where
  "WriteLittleEndian out s = WriteLittleEndian_loop 0 (LENGTH('a) div 8) out s"

section \<open>Chunks\<close>

record Chunk =
  chunk_type :: uint32_t
  chunk_size :: uint32_t

definition CHUNK_TYPE_RIFF :: uint32_t where "CHUNK_TYPE_RIFF = 0x46464952"
definition CHUNK_TYPE_FMT :: uint32_t where "CHUNK_TYPE_FMT = 0x20746d66"
definition CHUNK_TYPE_DATA :: uint32_t where "CHUNK_TYPE_DATA = 0x61746164"
definition DEFAULT_CHUNK_SIZE_FMT :: uint32_t where "DEFAULT_CHUNK_SIZE_FMT = 16"
definition DEFAULT_CHUNK_SIZE_DATA :: uint32_t where "DEFAULT_CHUNK_SIZE_DATA = 0"
definition DEFAULT_CHUNK_SIZE_RIFF :: uint32_t where
  "DEFAULT_CHUNK_SIZE_RIFF = 4 + 8 + DEFAULT_CHUNK_SIZE_FMT + 8 + DEFAULT_CHUNK_SIZE_DATA"

text \<open>The constructor \<^verbatim>\<open>Chunk(uint32_t type)\<close>: the default size of each kind.\<close>

definition Chunk_ctor :: "uint32_t \<Rightarrow> Chunk" where
  "Chunk_ctor type =
     \<lparr>chunk_type = type,
      chunk_size =
        (if type = CHUNK_TYPE_RIFF then DEFAULT_CHUNK_SIZE_RIFF
         else if type = CHUNK_TYPE_FMT then DEFAULT_CHUNK_SIZE_FMT
         else if type = CHUNK_TYPE_DATA then DEFAULT_CHUNK_SIZE_DATA
         else 0)\<rparr>"

text \<open>
  \<^verbatim>\<open>Chunk::ReadFrom\<close> reads the size only (the tag was read by the caller);
  \<^verbatim>\<open>Chunk::WriteTo\<close> writes tag and size. Both act on the base part of any chunk.
\<close>

definition Chunk_ReadFrom ::
  "junk \<Rightarrow> istream \<Rightarrow> 'a Chunk_scheme \<Rightarrow> 'a Chunk_scheme \<times> istream" where
  "Chunk_ReadFrom U s c =
     (let (sz, s') = ReadLittleEndian U s in (c\<lparr>chunk_size := sz\<rparr>, s'))"

definition Chunk_WriteTo :: "'a Chunk_scheme \<Rightarrow> ostream \<Rightarrow> ostream" where
  "Chunk_WriteTo c s = WriteLittleEndian (chunk_size c) (WriteLittleEndian (chunk_type c) s)"

subsection \<open>RiffChunk\<close>

record RiffChunk = Chunk +
  riff_type :: uint32_t

definition RIFF_TYPE_WAVE :: uint32_t where "RIFF_TYPE_WAVE = 0x45564157"

definition RiffChunk_ctor :: RiffChunk where
  "RiffChunk_ctor =
     \<lparr>chunk_type = chunk_type (Chunk_ctor CHUNK_TYPE_RIFF),
      chunk_size = chunk_size (Chunk_ctor CHUNK_TYPE_RIFF),
      riff_type = RIFF_TYPE_WAVE\<rparr>"

definition RiffChunk_ReadFrom :: "junk \<Rightarrow> istream \<Rightarrow> RiffChunk \<Rightarrow> RiffChunk \<times> istream" where
  "RiffChunk_ReadFrom U s c =
     (let (c1, s1) = Chunk_ReadFrom U s c;
          (t, s2) = ReadLittleEndian U s1
      in (c1\<lparr>riff_type := t\<rparr>, s2))"

definition RiffChunk_WriteTo :: "RiffChunk \<Rightarrow> ostream \<Rightarrow> ostream" where
  "RiffChunk_WriteTo c s = WriteLittleEndian (riff_type c) (Chunk_WriteTo c s)"

subsection \<open>FmtChunk\<close>

record FmtChunk = Chunk +
  compression :: uint16_t
  nchannels :: uint16_t
  sample_rate :: uint32_t
  bytes_per_sec :: uint32_t
  block_align :: uint16_t
  bits_per_sample :: uint16_t

definition COMPRESSION_NONE :: uint16_t where "COMPRESSION_NONE = 1"
definition DEFAULT_COMPRESSION :: uint16_t where "DEFAULT_COMPRESSION = COMPRESSION_NONE"
definition DEFAULT_NCHANNELS :: uint16_t where "DEFAULT_NCHANNELS = 1"
definition DEFAULT_SAMPLE_RATE :: uint32_t where "DEFAULT_SAMPLE_RATE = 22050"
definition DEFAULT_BITS_PER_SAMPLE :: uint32_t where "DEFAULT_BITS_PER_SAMPLE = 16"
definition DEFAULT_BLOCK_ALIGN :: uint32_t where
  "DEFAULT_BLOCK_ALIGN = (DEFAULT_BITS_PER_SAMPLE div 8) * ucast DEFAULT_NCHANNELS"
definition DEFAULT_BYTES_PER_SEC :: uint32_t where
  "DEFAULT_BYTES_PER_SEC = DEFAULT_SAMPLE_RATE * DEFAULT_BLOCK_ALIGN"

definition FmtChunk_ctor :: FmtChunk where
  "FmtChunk_ctor =
     \<lparr>chunk_type = chunk_type (Chunk_ctor CHUNK_TYPE_FMT),
      chunk_size = chunk_size (Chunk_ctor CHUNK_TYPE_FMT),
      compression = DEFAULT_COMPRESSION,
      nchannels = DEFAULT_NCHANNELS,
      sample_rate = DEFAULT_SAMPLE_RATE,
      bytes_per_sec = DEFAULT_BYTES_PER_SEC,
      block_align = ucast DEFAULT_BLOCK_ALIGN,
      bits_per_sample = ucast DEFAULT_BITS_PER_SAMPLE\<rparr>"

text \<open>
  \<^verbatim>\<open>FmtChunk::ReadFrom\<close> reads the size and the six fields whatever the size says, and
  warns on \<^verbatim>\<open>std::cerr\<close> when the compression code is not 1. The lines written to
  \<^verbatim>\<open>std::cerr\<close> are returned as a list of strings.
\<close>

definition FmtChunk_ReadFrom ::
  "junk \<Rightarrow> istream \<Rightarrow> FmtChunk \<Rightarrow> FmtChunk \<times> istream \<times> string list" where
  "FmtChunk_ReadFrom U s c =
     (let (c0, s0) = Chunk_ReadFrom U s c;
          (v1, s1) = ReadLittleEndian U s0;
          (v2, s2) = ReadLittleEndian U s1;
          (v3, s3) = ReadLittleEndian U s2;
          (v4, s4) = ReadLittleEndian U s3;
          (v5, s5) = ReadLittleEndian U s4;
          (v6, s6) = ReadLittleEndian U s5;
          c' = c0\<lparr>compression := v1, nchannels := v2, sample_rate := v3,
                  bytes_per_sec := v4, block_align := v5, bits_per_sample := v6\<rparr>
      in (c', s6,
          if compression c' \<noteq> COMPRESSION_NONE
          then [''This WAV file appears to be compressed -- I can't deal with that.'']
          else []))"

definition FmtChunk_WriteTo :: "FmtChunk \<Rightarrow> ostream \<Rightarrow> ostream" where
  "FmtChunk_WriteTo c s =
     WriteLittleEndian (bits_per_sample c)
       (WriteLittleEndian (block_align c)
         (WriteLittleEndian (bytes_per_sec c)
           (WriteLittleEndian (sample_rate c)
             (WriteLittleEndian (nchannels c)
               (WriteLittleEndian (compression c)
                 (Chunk_WriteTo c s))))))"

subsection \<open>DataChunk\<close>

text \<open>
  A \<^verbatim>\<open>char*\<close> that owns an array is in one of three states: null, the address of a
  live array (given by its bytes), or the address of an array that was deleted.
\<close>

datatype pointer = Null | Array "byte list" | Deleted

text \<open>
  The private members \<^verbatim>\<open>data_\<close> and \<^verbatim>\<open>data_length_\<close> are the fields \<open>data_ptr\<close> and
  \<open>data_length\<close> (a name cannot end in an underscore here). \<open>data_length\<close> is the stored
  length, which \<^verbatim>\<open>Skip\<close> sets without allocating. Allocation is assumed to succeed.
  \<open>data c\<close> is the accessor \<^verbatim>\<open>data()\<close>: the bytes that can be read and written through the
  pointer, none when it is null or deleted. \<open>store bs p\<close> is the pointer \<open>p\<close> after the
  bytes of its array were overwritten by \<open>bs\<close>.
\<close>

record DataChunk = Chunk +
  data_ptr :: pointer
  data_length :: uint32_t

definition data :: "DataChunk \<Rightarrow> byte list" where
  "data c = (case data_ptr c of Array bs \<Rightarrow> bs | _ \<Rightarrow> [])"

definition store :: "byte list \<Rightarrow> pointer \<Rightarrow> pointer" where
  "store bs p = (case p of Array _ \<Rightarrow> Array bs | _ \<Rightarrow> p)"

definition DataChunk_ctor :: DataChunk where
  "DataChunk_ctor =
     \<lparr>chunk_type = chunk_type (Chunk_ctor CHUNK_TYPE_DATA),
      chunk_size = chunk_size (Chunk_ctor CHUNK_TYPE_DATA),
      data_ptr = Null, data_length = 0\<rparr>"

definition DataChunk_ctor_type :: "uint32_t \<Rightarrow> DataChunk" where
  "DataChunk_ctor_type type =
     \<lparr>chunk_type = chunk_type (Chunk_ctor type),
      chunk_size = chunk_size (Chunk_ctor type),
      data_ptr = Null, data_length = 0\<rparr>"

text \<open>
  \<^verbatim>\<open>ReAllocData\<close>: a pointer that is not null is passed to \<^verbatim>\<open>delete[]\<close>, which is undefined
  for an array that was deleted before. Both lengths are set to \<open>length\<close>, the allocated
  length grows by \<open>length % 2\<close> (in 32-bit arithmetic), and only a nonzero allocated
  length allocates: a fresh array of indeterminate bytes whose last byte is zeroed when
  \<open>length\<close> is odd. With an allocated length of zero the pointer is not assigned: a null
  pointer stays null, and the address of the array just deleted stays in \<^verbatim>\<open>data_\<close>.
\<close>

definition ReAllocData :: "junk \<Rightarrow> uint32_t \<Rightarrow> DataChunk \<Rightarrow> fault + DataChunk" where
  "ReAllocData U len c =
     (if data_ptr c = Deleted then Inl DoubleDelete
      else
        (let dl = len + len mod 2 in
         Inr (c\<lparr>chunk_size := len,
                data_length := dl,
                data_ptr :=
                  (if dl \<noteq> 0 then
                     Array (let fresh = map U [0..<unat dl]
                            in if len mod 2 \<noteq> 0 then fresh[unat dl - 1 := 0] else fresh)
                   else (case data_ptr c of Array _ \<Rightarrow> Deleted | p \<Rightarrow> p))\<rparr>)))"

text \<open>
  \<^verbatim>\<open>memcpy(dst, src, n)\<close>: both pointers must refer to live arrays of at least \<open>n\<close>
  bytes, also when \<open>n\<close> is 0 (a null or deleted pointer is not a valid argument of the
  C library function). The result is the destination pointer with its new bytes.
\<close>

definition memcpy :: "pointer \<Rightarrow> pointer \<Rightarrow> nat \<Rightarrow> fault + pointer" where
  "memcpy dst src n =
     (case dst of
        Array d \<Rightarrow>
          (case src of
             Array s \<Rightarrow>
               if n \<le> length d \<and> n \<le> length s then Inr (Array (take n s @ drop n d))
               else Inl BadAccess
           | _ \<Rightarrow> Inl BadAccess)
      | _ \<Rightarrow> Inl BadAccess)"

text \<open>
  The copy constructor, which \<^verbatim>\<open>std::vector\<close> calls: the new chunk takes the tag and
  \<open>chunk_size\<close> of the other, allocates from \<open>chunk_size\<close>, and copies as many bytes as the
  \<open>data_length\<close> of the other says. The destructor deletes a pointer that is not null.
\<close>

definition DataChunk_copy :: "junk \<Rightarrow> DataChunk \<Rightarrow> fault + DataChunk" where
  "DataChunk_copy U other =
     (case ReAllocData U (chunk_size other)
             \<lparr>chunk_type = chunk_type other, chunk_size = chunk_size other,
              data_ptr = Null, data_length = 0\<rparr> of
        Inl f \<Rightarrow> Inl f
      | Inr c \<Rightarrow>
          (case memcpy (data_ptr c) (data_ptr other) (unat (data_length other)) of
             Inl f \<Rightarrow> Inl f
           | Inr d \<Rightarrow> Inr (c\<lparr>data_ptr := d\<rparr>)))"

definition DataChunk_dtor :: "DataChunk \<Rightarrow> fault + unit" where
  "DataChunk_dtor c = (if data_ptr c = Deleted then Inl DoubleDelete else Inr ())"

text \<open>
  \<^verbatim>\<open>DataChunk::ReadFrom\<close>: the size, the reallocation, then \<^verbatim>\<open>stream.read\<close> of the whole
  allocated length (padding byte included) into the array; bytes the stream cannot
  supply are left as they were.
\<close>

definition DataChunk_ReadFrom ::
  "junk \<Rightarrow> istream \<Rightarrow> DataChunk \<Rightarrow> fault + (DataChunk \<times> istream)" where
  "DataChunk_ReadFrom U s c =
     (let (c0, s0) = Chunk_ReadFrom U s c in
      case ReAllocData U (chunk_size c0) c0 of
        Inl f \<Rightarrow> Inl f
      | Inr c1 \<Rightarrow>
          (let (got, s1) = istream_read (unat (data_length c1)) s0
           in Inr (c1\<lparr>data_ptr := store (got @ drop (length got) (data c1)) (data_ptr c1)\<rparr>,
                   s1)))"

definition Skip :: "junk \<Rightarrow> istream \<Rightarrow> DataChunk \<Rightarrow> fault + (DataChunk \<times> istream)" where
  "Skip U s c =
     (case ReAllocData U 0 c of
        Inl f \<Rightarrow> Inl f
      | Inr c0 \<Rightarrow>
          (let (c1, s1) = Chunk_ReadFrom U s c0;
               c2 = c1\<lparr>data_length := chunk_size c1 + chunk_size c1 mod 2\<rparr>
           in Inr (c2, istream_ignore (unat (data_length c2)) s1)))"

text \<open>
  \<^verbatim>\<open>DataChunk::WriteTo\<close>: the header, then \<open>data_length\<close> bytes read through the pointer.
\<close>

definition DataChunk_WriteTo :: "DataChunk \<Rightarrow> ostream \<Rightarrow> fault + ostream" where
  "DataChunk_WriteTo c s =
     (let s0 = Chunk_WriteTo c s in
      if unat (data_length c) \<le> length (data c)
      then Inr (ostream_write (take (unat (data_length c)) (data c)) s0)
      else Inl BadAccess)"

section \<open>Wave\<close>

text \<open>
  \<^verbatim>\<open>std::vector<DataChunk>\<close> is the list of its elements. Its capacity is not part of the
  model: whether a \<^verbatim>\<open>push_back\<close> finds the capacity used up depends on the library and on
  the history of the vector, and is a parameter, \<open>G n\<close> for a vector of \<open>n\<close> elements. Then
  the vector moves to new storage: every element it holds is copied by the copy
  constructor and the old one destroyed. The new element is a copy of the argument. (The
  order of these steps differs between libraries; it decides only which fault comes
  first.)
\<close>

type_synonym growth = "nat \<Rightarrow> bool"

fun copy_all :: "junk \<Rightarrow> DataChunk list \<Rightarrow> fault + DataChunk list" where
  "copy_all U [] = Inr []"
| "copy_all U (c # cs) =
     (case DataChunk_copy U c of
        Inl f \<Rightarrow> Inl f
      | Inr c' \<Rightarrow>
          (case copy_all U cs of
             Inl f \<Rightarrow> Inl f
           | Inr cs' \<Rightarrow> Inr (c' # cs')))"

fun destroy_all :: "DataChunk list \<Rightarrow> fault + unit" where
  "destroy_all [] = Inr ()"
| "destroy_all (c # cs) =
     (case DataChunk_dtor c of
        Inl f \<Rightarrow> Inl f
      | Inr _ \<Rightarrow> destroy_all cs)"

definition push_back ::
  "junk \<Rightarrow> growth \<Rightarrow> DataChunk list \<Rightarrow> DataChunk \<Rightarrow> fault + DataChunk list" where
  "push_back U G v x =
     (case DataChunk_copy U x of
        Inl f \<Rightarrow> Inl f
      | Inr x' \<Rightarrow>
          if G (length v) then
            (case copy_all U v of
               Inl f \<Rightarrow> Inl f
             | Inr v' \<Rightarrow>
                 (case destroy_all v of
                    Inl f \<Rightarrow> Inl f
                  | Inr _ \<Rightarrow> Inr (v' @ [x'])))
          else Inr (v @ [x']))"

record Wave =
  riff_chunk :: RiffChunk
  fmt_chunk :: FmtChunk
  data_chunk :: DataChunk
  other_chunks :: "DataChunk list"

definition Wave_ctor :: Wave where
  "Wave_ctor =
     \<lparr>riff_chunk = RiffChunk_ctor, fmt_chunk = FmtChunk_ctor,
      data_chunk = DataChunk_ctor, other_chunks = []\<rparr>"

definition bytes_per_sample :: "Wave \<Rightarrow> uint32_t" where
  "bytes_per_sample w = ucast (block_align (fmt_chunk w))"

definition bytes_per_sample_slice :: "Wave \<Rightarrow> uint32_t" where
  "bytes_per_sample_slice w = ucast (bits_per_sample (fmt_chunk w)) div 8"

text \<open>The division operator of C++ on \<^verbatim>\<open>unsigned\<close>: undefined for a zero divisor.\<close>

definition unsigned_div :: "uint32_t \<Rightarrow> uint32_t \<Rightarrow> fault + uint32_t" where
  "unsigned_div a b = (if b = 0 then Inl DivideByZero else Inr (a div b))"

definition nsamples :: "Wave \<Rightarrow> fault + uint32_t" where
  "nsamples w =
     (if chunk_size (data_chunk w) = 0 \<or> bytes_per_sample w = 0 then Inr 0
      else unsigned_div (chunk_size (data_chunk w)) (bytes_per_sample w))"

subsection \<open>The sample codec\<close>

text \<open>
  The static helpers take \<^verbatim>\<open>unsigned\<close> counts; \<^verbatim>\<open>GetSample\<close> and \<^verbatim>\<open>SetSample\<close>, their only
  callers, pass values converted from 16-bit fields, so the index arithmetic
  \<open>i * sizeof_thing\<close>, \<open>j + i * sizeof_thing\<close> and \<open>8 * i\<close> cannot wrap and is written on
  \<open>nat\<close>. The one expression that wraps, \<open>sizeof_thing * 8 - 1\<close> at \<open>sizeof_thing = 0\<close>,
  is computed on a 32-bit word. A pointer into the data array is the array and an index.
  The variables \<^verbatim>\<open>total\<close> and \<^verbatim>\<open>value\<close> of the source are \<open>total'\<close> and \<open>val\<close>: the plain
  names are taken. A left shift of an \<^verbatim>\<open>int\<close> by less than 32 yields the 32-bit two's
  complement pattern, also when it reaches the sign bit.
\<close>

function max_thing_value_loop :: "nat \<Rightarrow> nat \<Rightarrow> ulonglong \<Rightarrow> fault + ulonglong" where
  "max_thing_value_loop i sizeof_thing answer =
     (if i < sizeof_thing then
        (if 64 \<le> 8 * i then Inl BadShift
         else max_thing_value_loop (i + 1) sizeof_thing (answer OR push_bit (8 * i) 0xff))
      else Inr answer)"
  by pat_completeness auto
termination
  by (relation "measure (\<lambda>(i, n, answer). n - i)") auto

definition max_thing_value :: "nat \<Rightarrow> fault + ulonglong" where
  "max_thing_value sizeof_thing = max_thing_value_loop 0 sizeof_thing 0"

text \<open>
  \<^verbatim>\<open>~(1<<(sizeof_thing*8-1)) & max_thing_value(sizeof_thing)\<close>: the shift and the
  complement are on \<^verbatim>\<open>int\<close>; the result is converted to \<^verbatim>\<open>unsigned long long\<close> (with its
  sign) for the conjunction.
\<close>

definition max_signed_value :: "nat \<Rightarrow> fault + ulonglong" where
  "max_signed_value sizeof_thing =
     (let amount = unat (word_of_nat sizeof_thing * 8 - 1 :: uint32_t) in
      if 32 \<le> amount then Inl BadShift
      else case max_thing_value sizeof_thing of
             Inl f \<Rightarrow> Inl f
           | Inr m \<Rightarrow> Inr (scast (NOT (push_bit amount (1 :: 32 word))) AND m))"

text \<open>
  In \<^verbatim>\<open>answer |= (unsigned char)things[i] << 8*i\<close> the byte is promoted to \<^verbatim>\<open>int\<close> and
  shifted there; the \<^verbatim>\<open>int\<close> is then converted to \<^verbatim>\<open>unsigned long long\<close>, which extends
  its sign bit.
\<close>

function GetValue_loop ::
  "byte list \<Rightarrow> nat \<Rightarrow> nat \<Rightarrow> nat \<Rightarrow> ulonglong \<Rightarrow> fault + ulonglong" where
  "GetValue_loop things base i sizeof_thing answer =
     (if i < sizeof_thing then
        (if length things \<le> base + i then Inl BadAccess
         else if 32 \<le> 8 * i then Inl BadShift
         else GetValue_loop things base (i + 1) sizeof_thing
                (answer OR scast (push_bit (8 * i) (ucast (things ! (base + i)) :: 32 word))))
      else Inr answer)"
  by pat_completeness auto
termination
  by (relation "measure (\<lambda>(things, base, i, n, answer). n - i)") auto

definition GetValue :: "byte list \<Rightarrow> nat \<Rightarrow> nat \<Rightarrow> bool \<Rightarrow> fault + ulonglong" where
  "GetValue things base sizeof_thing thing_is_signed =
     (case GetValue_loop things base 0 sizeof_thing 0 of
        Inl f \<Rightarrow> Inl f
      | Inr answer \<Rightarrow>
          if thing_is_signed then
            (case max_signed_value sizeof_thing of
               Inl f \<Rightarrow> Inl f
             | Inr m \<Rightarrow> if answer > m then Inr (answer - (m + 1)) else Inr (answer + (m + 1)))
          else Inr answer)"

function TakeChannelAvg_loop ::
  "byte list \<Rightarrow> nat \<Rightarrow> nat \<Rightarrow> nat \<Rightarrow> nat \<Rightarrow> bool \<Rightarrow> ulonglong \<Rightarrow> fault + ulonglong" where
  "TakeChannelAvg_loop things base i nthings sizeof_thing thing_is_signed total' =
     (if i < nthings then
        (case GetValue things (base + i * sizeof_thing) sizeof_thing thing_is_signed of
           Inl f \<Rightarrow> Inl f
         | Inr thing \<Rightarrow>
             TakeChannelAvg_loop things base (i + 1) nthings sizeof_thing thing_is_signed
               (total' + thing))
      else Inr total')"
  by pat_completeness auto
termination
  by (relation "measure (\<lambda>(things, base, i, n, sz, sg, t). n - i)") auto

definition TakeChannelAvg :: "byte list \<Rightarrow> nat \<Rightarrow> nat \<Rightarrow> nat \<Rightarrow> bool \<Rightarrow> fault + double" where
  "TakeChannelAvg things base nthings sizeof_thing thing_is_signed =
     (case TakeChannelAvg_loop things base 0 nthings sizeof_thing thing_is_signed 0 of
        Inl f \<Rightarrow> Inl f
      | Inr total' \<Rightarrow>
          if nthings = 0 then Inl NonFinite
          else
            (let average = double_div (ulonglong_to_double total') (unsigned_to_double nthings) in
             case max_thing_value sizeof_thing of
               Inl f \<Rightarrow> Inl f
             | Inr m \<Rightarrow>
                 if m = 0 then Inl NonFinite
                 else Inr (double_sub
                             (double_mul (double_div average (ulonglong_to_double m)) 2) 1)))"

text \<open>
  The conversion of a double to \<^verbatim>\<open>unsigned long long\<close> truncates towards zero and is
  undefined when the truncated value is not representable.
\<close>

definition double_to_ulonglong :: "double \<Rightarrow> fault + ulonglong" where
  "double_to_ulonglong x =
     (if x \<le> - 1 \<or> 2 ^ 64 \<le> x then Inl BadConversion else Inr (word_of_nat (nat \<lfloor>x\<rfloor>)))"

function PutChannelAvg_inner ::
  "ulonglong \<Rightarrow> byte list \<Rightarrow> nat \<Rightarrow> nat \<Rightarrow> nat \<Rightarrow> nat \<Rightarrow> fault + byte list" where
  "PutChannelAvg_inner thing things base i j sizeof_thing =
     (if j < sizeof_thing then
        (if 64 \<le> 8 * j then Inl BadShift
         else if length things \<le> base + (j + i * sizeof_thing) then Inl BadAccess
         else PutChannelAvg_inner thing
                (things[base + (j + i * sizeof_thing) := ucast (drop_bit (8 * j) thing)])
                base i (j + 1) sizeof_thing)
      else Inr things)"
  by pat_completeness auto
termination
  by (relation "measure (\<lambda>(thing, things, base, i, j, n). n - j)") auto

function PutChannelAvg_outer ::
  "ulonglong \<Rightarrow> byte list \<Rightarrow> nat \<Rightarrow> nat \<Rightarrow> nat \<Rightarrow> nat \<Rightarrow> fault + byte list" where
  "PutChannelAvg_outer thing things base i nthings sizeof_thing =
     (if i < nthings then
        (case PutChannelAvg_inner thing things base i 0 sizeof_thing of
           Inl f \<Rightarrow> Inl f
         | Inr things' \<Rightarrow> PutChannelAvg_outer thing things' base (i + 1) nthings sizeof_thing)
      else Inr things)"
  by pat_completeness auto
termination
  by (relation "measure (\<lambda>(thing, things, base, i, n, sz). n - i)") auto

definition PutChannelAvg ::
  "double \<Rightarrow> byte list \<Rightarrow> nat \<Rightarrow> nat \<Rightarrow> nat \<Rightarrow> bool \<Rightarrow> fault + byte list" where
  "PutChannelAvg val things base nthings sizeof_thing thing_is_signed =
     (case max_thing_value sizeof_thing of
        Inl f \<Rightarrow> Inl f
      | Inr m \<Rightarrow>
          (case double_to_ulonglong
                  (double_mul (double_div (double_add val 1) 2) (ulonglong_to_double m)) of
             Inl f \<Rightarrow> Inl f
           | Inr thing0 \<Rightarrow>
               (case (if thing_is_signed then
                        (case max_signed_value sizeof_thing of
                           Inl f \<Rightarrow> Inl f
                         | Inr ms \<Rightarrow>
                             if thing0 > ms then Inr (thing0 - (ms + 1))
                             else Inr (thing0 + (ms + 1)))
                      else Inr thing0) of
                  Inl f \<Rightarrow> Inl f
                | Inr thing \<Rightarrow> PutChannelAvg_outer thing things base 0 nthings sizeof_thing)))"

subsection \<open>GetSample, SetSample, Resize\<close>

definition GetSample :: "Wave \<Rightarrow> uint32_t \<Rightarrow> fault + double" where
  "GetSample w offset =
     (case nsamples w of
        Inl f \<Rightarrow> Inl f
      | Inr n \<Rightarrow>
          if offset \<ge> n then Inr 0
          else
            (let segment = unat (offset * bytes_per_sample w) in
             if bytes_per_sample_slice w = 1 then
               TakeChannelAvg (data (data_chunk w)) segment
                 (unat (nchannels (fmt_chunk w))) (unat (bytes_per_sample_slice w)) False
             else
               TakeChannelAvg (data (data_chunk w)) segment
                 (unat (nchannels (fmt_chunk w))) (unat (bytes_per_sample_slice w)) True))"

definition SetSample :: "Wave \<Rightarrow> uint32_t \<Rightarrow> double \<Rightarrow> fault + Wave" where
  "SetSample w offset val =
     (case nsamples w of
        Inl f \<Rightarrow> Inl f
      | Inr n \<Rightarrow>
          if offset \<ge> n then Inr w
          else
            (let segment = unat (offset * bytes_per_sample w) in
             case (if bytes_per_sample_slice w = 1 then
                     PutChannelAvg val (data (data_chunk w)) segment
                       (unat (nchannels (fmt_chunk w))) (unat (bytes_per_sample_slice w)) False
                   else
                     PutChannelAvg val (data (data_chunk w)) segment
                       (unat (nchannels (fmt_chunk w))) (unat (bytes_per_sample_slice w)) True) of
               Inl f \<Rightarrow> Inl f
             | Inr things \<Rightarrow>
                 Inr (w\<lparr>data_chunk :=
                          (data_chunk w)\<lparr>data_ptr := store things (data_ptr (data_chunk w))\<rparr>\<rparr>)))"

text \<open>
  \<^verbatim>\<open>UpdateFmtValues\<close>: the product for \<open>bytes_per_sec\<close> is unsigned 32-bit arithmetic;
  the product for \<open>block_align\<close> is \<^verbatim>\<open>int\<close> arithmetic (it cannot overflow) stored into a
  16-bit field.
\<close>

definition UpdateFmtValues :: "Wave \<Rightarrow> Wave" where
  "UpdateFmtValues w =
     (let f = fmt_chunk w;
          f1 = f\<lparr>bytes_per_sec :=
                  sample_rate f * ucast (nchannels f) * (ucast (bits_per_sample f) div 8)\<rparr>;
          f2 = f1\<lparr>block_align :=
                  ucast (ucast (nchannels f1) * (ucast (bits_per_sample f1) div 8) :: 32 word)\<rparr>
      in w\<lparr>fmt_chunk := f2\<rparr>)"

definition UpdateRiffFileSize :: "Wave \<Rightarrow> Wave" where
  "UpdateRiffFileSize w =
     (let total' = 8 * 3;
          total' = total' + 4;
          total' = total' + chunk_size (fmt_chunk w);
          total' = total' + chunk_size (data_chunk w);
          total' = fold (\<lambda>it total'. total' + chunk_size it) (other_chunks w) total'
      in w\<lparr>riff_chunk := (riff_chunk w)\<lparr>chunk_size := total'\<rparr>\<rparr>)"

definition Resize :: "junk \<Rightarrow> uint32_t \<Rightarrow> Wave \<Rightarrow> fault + Wave" where
  "Resize U new_nsamples w =
     (let w1 = UpdateFmtValues w
      in case ReAllocData U (new_nsamples * bytes_per_sample w1) (data_chunk w1) of
           Inl f \<Rightarrow> Inl f
         | Inr d \<Rightarrow> Inr (w1\<lparr>data_chunk := d\<rparr>))"

subsection \<open>Load\<close>

text \<open>
  The recursive equations of the loops are used by name, not as default rewrite rules.
\<close>

declare floor_log2.simps [simp del]
declare ReadLittleEndian_loop.simps [simp del]
declare WriteLittleEndian_loop.simps [simp del]
declare max_thing_value_loop.simps [simp del]
declare GetValue_loop.simps [simp del]
declare TakeChannelAvg_loop.simps [simp del]
declare PutChannelAvg_inner.simps [simp del]
declare PutChannelAvg_outer.simps [simp del]

text \<open>Reading never puts bytes back; a 4-byte read that leaves the stream good took 4 bytes.\<close>

lemma istream_read_content_le:
  "length (content (snd (istream_read n s))) \<le> length (content s)"
  by (simp add: istream_read_def)

lemma istream_read_good:
  "good (snd (istream_read n s)) \<Longrightarrow>
     good s \<and> n \<le> length (content s) \<and> istream_read n s = (take n (content s), s\<lparr>content := drop n (content s)\<rparr>)"
  by (simp add: istream_read_def split: if_splits)

lemma ReadLittleEndian_loop_content_le:
  "length (content (snd (ReadLittleEndian_loop U i n s out))) \<le> length (content s)"
proof (induction U i n s out rule: ReadLittleEndian_loop.induct)
  case (1 U i n s out)
  show ?case
  proof (cases "i < n")
    case True
    obtain got s' where r: "istream_read 1 s = (got, s')"
      by (cases "istream_read 1 s")
    have "length (content s') \<le> length (content s)"
      using istream_read_content_le [of 1 s] r by simp
    moreover have "length (content (snd (ReadLittleEndian_loop U (i + 1) n s'
        (out OR ucast (push_bit (8 * i) (ucast (case got of [] \<Rightarrow> U i | b # _ \<Rightarrow> b) :: 32 word))))))
        \<le> length (content s')"
      using "1.IH" [OF True refl r [symmetric] refl] .
    ultimately show ?thesis
      using True r by (subst ReadLittleEndian_loop.simps) simp
  next
    case False
    then show ?thesis by (subst ReadLittleEndian_loop.simps) simp
  qed
qed

lemma ReadLittleEndian_loop_bad:
  "\<not> good s \<Longrightarrow> snd (ReadLittleEndian_loop U i n s out) = s"
proof (induction U i n s out rule: ReadLittleEndian_loop.induct)
  case (1 U i n s out)
  have rd: "istream_read 1 s = ([], s)"
    using "1.prems" by (simp add: istream_read_def)
  show ?case
  proof (cases "i < n")
    case True
    have "snd (ReadLittleEndian_loop U (i + 1) n s
            (out OR ucast (push_bit (8 * i) (ucast (U i) :: 32 word)))) = s"
      using "1.IH" [OF True refl rd [symmetric] refl "1.prems"] by simp
    then show ?thesis
      using True rd by (subst ReadLittleEndian_loop.simps) simp
  next
    case False
    then show ?thesis by (subst ReadLittleEndian_loop.simps) simp
  qed
qed

lemma ReadLittleEndian_loop_good:
  "good (snd (ReadLittleEndian_loop U i n s out)) \<Longrightarrow>
     length (content (snd (ReadLittleEndian_loop U i n s out))) + (n - i) = length (content s)"
proof (induction U i n s out rule: ReadLittleEndian_loop.induct)
  case (1 U i n s out)
  show ?case
  proof (cases "i < n")
    case True
    obtain got s' where r: "istream_read 1 s = (got, s')"
      by (cases "istream_read 1 s")
    let ?out = "out OR ucast (push_bit (8 * i) (ucast (case got of [] \<Rightarrow> U i | b # _ \<Rightarrow> b) :: 32 word))"
    have unfold: "ReadLittleEndian_loop U i n s out = ReadLittleEndian_loop U (i + 1) n s' ?out"
      using True r by (subst ReadLittleEndian_loop.simps) simp
    have g: "good (snd (ReadLittleEndian_loop U (i + 1) n s' ?out))"
      using "1.prems" unfold by simp
    have ih: "length (content (snd (ReadLittleEndian_loop U (i + 1) n s' ?out))) + (n - (i + 1))
        = length (content s')"
      using "1.IH" [OF True refl r [symmetric] refl g] .
    have gs': "good s'"
    proof (rule ccontr)
      assume "\<not> good s'"
      from ReadLittleEndian_loop_bad [OF this]
      have "snd (ReadLittleEndian_loop U (i + 1) n s' ?out) = s'" .
      with g \<open>\<not> good s'\<close> show False by simp
    qed
    have "1 \<le> length (content s) \<and> s' = s\<lparr>content := drop 1 (content s)\<rparr>"
      using istream_read_good [of 1 s] r gs' by simp
    then have "length (content s') + 1 = length (content s)"
      by auto
    then show ?thesis using ih unfold True by simp
  next
    case False
    then show ?thesis by (subst ReadLittleEndian_loop.simps) simp
  qed
qed

lemma ReadLittleEndian_content_le:
  "length (content (snd (ReadLittleEndian U s))) \<le> length (content s)"
  by (simp add: ReadLittleEndian_def ReadLittleEndian_loop_content_le)

lemma ReadLittleEndian32_good:
  "good (snd (ReadLittleEndian U s :: uint32_t \<times> istream)) \<Longrightarrow>
     length (content (snd (ReadLittleEndian U s :: uint32_t \<times> istream))) + 4 = length (content s)"
  using ReadLittleEndian_loop_good [of U 0 4 s "0 :: uint32_t"]
  by (simp add: ReadLittleEndian_def)

lemma Chunk_ReadFrom_content_le:
  "length (content (snd (Chunk_ReadFrom U s c))) \<le> length (content s)"
proof -
  have "length (content (snd (ReadLittleEndian U s :: uint32_t \<times> istream))) \<le> length (content s)"
    by (rule ReadLittleEndian_content_le)
  then show ?thesis
    by (auto simp: Chunk_ReadFrom_def split: prod.splits)
qed

lemma FmtChunk_ReadFrom_content_le:
  "length (content (fst (snd (FmtChunk_ReadFrom U s c)))) \<le> length (content s)"
proof -
  have le: "\<And>(x :: 'b::len word) s1 s0. (x, s1) = ReadLittleEndian U s0 \<Longrightarrow>
      length (content s1) \<le> length (content s0)"
    by (metis ReadLittleEndian_content_le snd_conv)
  obtain c0 s0 where a0: "Chunk_ReadFrom U s c = (c0, s0)"
    by (cases "Chunk_ReadFrom U s c")
  obtain v1 :: uint16_t and s1 where a1: "ReadLittleEndian U s0 = (v1, s1)"
    by (cases "ReadLittleEndian U s0 :: uint16_t \<times> istream")
  obtain v2 :: uint16_t and s2 where a2: "ReadLittleEndian U s1 = (v2, s2)"
    by (cases "ReadLittleEndian U s1 :: uint16_t \<times> istream")
  obtain v3 :: uint32_t and s3 where a3: "ReadLittleEndian U s2 = (v3, s3)"
    by (cases "ReadLittleEndian U s2 :: uint32_t \<times> istream")
  obtain v4 :: uint32_t and s4 where a4: "ReadLittleEndian U s3 = (v4, s4)"
    by (cases "ReadLittleEndian U s3 :: uint32_t \<times> istream")
  obtain v5 :: uint16_t and s5 where a5: "ReadLittleEndian U s4 = (v5, s5)"
    by (cases "ReadLittleEndian U s4 :: uint16_t \<times> istream")
  obtain v6 :: uint16_t and s6 where a6: "ReadLittleEndian U s5 = (v6, s6)"
    by (cases "ReadLittleEndian U s5 :: uint16_t \<times> istream")
  have "length (content s0) \<le> length (content s)"
    using Chunk_ReadFrom_content_le [of U s c] a0 by simp
  moreover have "length (content s1) \<le> length (content s0)" using le a1 [symmetric] .
  moreover have "length (content s2) \<le> length (content s1)" using le a2 [symmetric] .
  moreover have "length (content s3) \<le> length (content s2)" using le a3 [symmetric] .
  moreover have "length (content s4) \<le> length (content s3)" using le a4 [symmetric] .
  moreover have "length (content s5) \<le> length (content s4)" using le a5 [symmetric] .
  moreover have "length (content s6) \<le> length (content s5)" using le a6 [symmetric] .
  moreover have "fst (snd (FmtChunk_ReadFrom U s c)) = s6"
    by (simp add: FmtChunk_ReadFrom_def Let_def a0 a1 a2 a3 a4 a5 a6)
  ultimately show ?thesis by simp
qed

lemma DataChunk_ReadFrom_content_le:
  assumes "DataChunk_ReadFrom U s c = Inr (c', s')"
  shows "length (content s') \<le> length (content s)"
proof -
  obtain c0 s0 where a0: "Chunk_ReadFrom U s c = (c0, s0)"
    by (cases "Chunk_ReadFrom U s c")
  obtain c1 where a1: "ReAllocData U (chunk_size c0) c0 = Inr c1"
    using assms a0 by (auto simp: DataChunk_ReadFrom_def split: sum.splits)
  have "length (content s0) \<le> length (content s)"
    using Chunk_ReadFrom_content_le [of U s c] a0 by simp
  moreover have "length (content (snd (istream_read (unat (data_length c1)) s0))) \<le> length (content s0)"
    by (rule istream_read_content_le)
  moreover have "s' = snd (istream_read (unat (data_length c1)) s0)"
    using assms a0 a1 by (auto simp: DataChunk_ReadFrom_def split: prod.splits)
  ultimately show ?thesis by simp
qed

lemma Skip_content_le:
  assumes "Skip U s c = Inr (c', s')"
  shows "length (content s') \<le> length (content s)"
proof -
  obtain c0 where a0: "ReAllocData U 0 c = Inr c0"
    using assms by (auto simp: Skip_def split: sum.splits)
  obtain c1 s1 where a1: "Chunk_ReadFrom U s c0 = (c1, s1)"
    by (cases "Chunk_ReadFrom U s c0")
  have "length (content s1) \<le> length (content s)"
    using Chunk_ReadFrom_content_le [of U s c0] a1 by simp
  moreover have "length (content (snd (istream_read (unat (chunk_size c1 + chunk_size c1 mod 2)) s1)))
      \<le> length (content s1)"
    by (rule istream_read_content_le)
  moreover have "s' = snd (istream_read (unat (chunk_size c1 + chunk_size c1 mod 2)) s1)"
    using assms a0 a1 by (auto simp: Skip_def Let_def istream_ignore_def)
  ultimately show ?thesis by simp
qed

lemma tag_read_shrinks:
  assumes "(x, y) = (ReadLittleEndian U s :: uint32_t \<times> istream)" and "\<not> \<not> good y"
  shows "length (content y) < length (content s)"
  using ReadLittleEndian32_good [of U s] assms
  by (metis snd_conv less_add_same_cancel1 zero_less_numeral)

text \<open>
  The private \<^verbatim>\<open>Load(file, filename, load_data)\<close> is \<open>Load_stream\<close>; its \<^verbatim>\<open>while\<close> loop is
  \<open>Load_loop\<close>. Each returns the container and the lines written to \<^verbatim>\<open>std::cerr\<close>.
  The local \<^verbatim>\<open>chunk\<close> of the \<^verbatim>\<open>default\<close> branch is destroyed when the \<^verbatim>\<open>switch\<close> is left.
\<close>

function Load_loop ::
  "junk \<Rightarrow> growth \<Rightarrow> bool \<Rightarrow> istream \<Rightarrow> Wave \<Rightarrow> string list \<Rightarrow> fault + (Wave \<times> string list)" where
  "Load_loop U G load_data file w cerr =
     (if good file then
        (let (chunk_type, f1) = (ReadLittleEndian U file :: uint32_t \<times> istream) in
         if \<not> good f1 then Inr (w, cerr)
         else if chunk_type = CHUNK_TYPE_FMT then
           (let (c, f2, msgs) = FmtChunk_ReadFrom U f1 (fmt_chunk w)
            in Load_loop U G load_data f2 (w\<lparr>fmt_chunk := c\<rparr>) (cerr @ msgs))
         else if chunk_type = CHUNK_TYPE_DATA then
           (if load_data then
              (case DataChunk_ReadFrom U f1 (data_chunk w) of
                 Inl e \<Rightarrow> Inl e
               | Inr (c, f2) \<Rightarrow> Load_loop U G load_data f2 (w\<lparr>data_chunk := c\<rparr>) cerr)
            else
              (case Skip U f1 (data_chunk w) of
                 Inl e \<Rightarrow> Inl e
               | Inr (c, f2) \<Rightarrow> Load_loop U G load_data f2 (w\<lparr>data_chunk := c\<rparr>) cerr))
         else
           (case DataChunk_ReadFrom U f1 (DataChunk_ctor_type chunk_type) of
              Inl e \<Rightarrow> Inl e
            | Inr (chunk, f2) \<Rightarrow>
                (case push_back U G (other_chunks w) chunk of
                   Inl e \<Rightarrow> Inl e
                 | Inr v \<Rightarrow>
                     (case DataChunk_dtor chunk of
                        Inl e \<Rightarrow> Inl e
                      | Inr _ \<Rightarrow> Load_loop U G load_data f2 (w\<lparr>other_chunks := v\<rparr>) cerr))))
      else Inr (w, cerr))"
  by pat_completeness auto
termination
proof (relation "measure (\<lambda>(U, G, load_data, fl, w, cerr). length (content fl))", goal_cases)
  case 1
  show ?case by simp
next
  case (2 U G load_data fl w cerr x xa y xb xc ya xd yb)
  have "length (content y) < length (content fl)"
    using tag_read_shrinks [of xa y U fl] 2 by simp
  moreover have "length (content xd) \<le> length (content y)"
    using FmtChunk_ReadFrom_content_le [of U y "fmt_chunk w"] 2 by (metis fst_conv snd_conv)
  ultimately show ?case by simp
next
  case (3 U G load_data fl w cerr x xa y b xb ya)
  have "length (content y) < length (content fl)"
    using tag_read_shrinks [of xa y U fl] 3 by simp
  moreover have "length (content ya) \<le> length (content y)"
    using DataChunk_ReadFrom_content_le [of U y "data_chunk w" xb ya] 3 by simp
  ultimately show ?case by simp
next
  case (4 U G load_data fl w cerr x xa y b xb ya)
  have "length (content y) < length (content fl)"
    using tag_read_shrinks [of xa y U fl] 4 by simp
  moreover have "length (content ya) \<le> length (content y)"
    using Skip_content_le [of U y "data_chunk w" xb ya] 4 by simp
  ultimately show ?case by simp
next
  case (5 U G load_data fl w cerr x xa y b xb ya ba bb)
  have "length (content y) < length (content fl)"
    using tag_read_shrinks [of xa y U fl] 5 by simp
  moreover have "length (content ya) \<le> length (content y)"
    using DataChunk_ReadFrom_content_le [of U y "DataChunk_ctor_type xa" xb ya] 5 by simp
  ultimately show ?case by simp
qed


declare Load_loop.simps [simp del]

definition not_a_wav_file :: "string \<Rightarrow> string" where
  "not_a_wav_file filename = ''Error: '' @ filename @ '' doesn't appear to be a WAV file!''"

definition Load_stream ::
  "junk \<Rightarrow> growth \<Rightarrow> istream \<Rightarrow> string \<Rightarrow> bool \<Rightarrow> Wave \<Rightarrow> fault + (Wave \<times> string list)" where
  "Load_stream U G file filename load_data w =
     (let (chunk_type, f1) = (ReadLittleEndian U file :: uint32_t \<times> istream) in
      if chunk_type \<noteq> CHUNK_TYPE_RIFF then Inr (w, [not_a_wav_file filename])
      else
        (let (riff, f2) = RiffChunk_ReadFrom U f1 (riff_chunk w);
             w1 = w\<lparr>riff_chunk := riff\<rparr>
         in if riff_type (riff_chunk w1) \<noteq> RIFF_TYPE_WAVE \<or> \<not> good f2
            then Inr (w1, [not_a_wav_file filename])
            else Load_loop U G load_data f2 w1 []))"

text \<open>
  The public entry points open the file themselves; \<open>file\<close> is the stream as the
  constructor of \<^verbatim>\<open>std::ifstream\<close> left it (not good when the file cannot be opened).
\<close>

definition LoadMetadata ::
  "junk \<Rightarrow> growth \<Rightarrow> istream \<Rightarrow> string \<Rightarrow> Wave \<Rightarrow> fault + (Wave \<times> string list)" where
  "LoadMetadata U G file filename w =
     (if \<not> good file then Inr (w, []) else Load_stream U G file filename False w)"

definition Load ::
  "junk \<Rightarrow> growth \<Rightarrow> istream \<Rightarrow> string \<Rightarrow> Wave \<Rightarrow> fault + (Wave \<times> string list)" where
  "Load U G file filename w =
     (if \<not> good file then Inr (w, [''Error: I can't open '' @ filename @ ''!''])
      else Load_stream U G file filename True w)"

subsection \<open>Save\<close>

text \<open>
  \<open>file_good\<close> says whether the \<^verbatim>\<open>std::ofstream\<close> could be opened; an opened file is
  truncated, and writes to it succeed. \<open>Save\<close> returns the container (its sizes and
  format values are updated), the bytes of the file (\<open>None\<close> when it was not opened)
  and the lines written to \<^verbatim>\<open>std::cerr\<close>. \<open>Save_loop\<close> is the loop over \<open>other_chunks\<close>.
\<close>

fun Save_loop :: "DataChunk list \<Rightarrow> ostream \<Rightarrow> fault + ostream" where
  "Save_loop [] file = Inr file"
| "Save_loop (it # rest) file =
     (case DataChunk_WriteTo it file of
        Inl f \<Rightarrow> Inl f
      | Inr file' \<Rightarrow> Save_loop rest file')"

definition Save :: "bool \<Rightarrow> string \<Rightarrow> Wave \<Rightarrow> fault + (Wave \<times> ostream option \<times> string list)" where
  "Save file_good filename w =
     (if \<not> file_good
      then Inr (w, None, [''Error: I can't open '' @ filename @ '' for writing!''])
      else
        (let w1 = UpdateRiffFileSize w;
             w2 = UpdateFmtValues w1;
             f1 = RiffChunk_WriteTo (riff_chunk w2) [];
             f2 = FmtChunk_WriteTo (fmt_chunk w2) f1
         in case Save_loop (other_chunks w2) f2 of
              Inl f \<Rightarrow> Inl f
            | Inr f3 \<Rightarrow>
                (case DataChunk_WriteTo (data_chunk w2) f3 of
                   Inl f \<Rightarrow> Inl f
                 | Inr f4 \<Rightarrow> Inr (w2, Some f4, []))))"

section \<open>Properties\<close>

subsection \<open>Word arithmetic on the 16-bit format fields\<close>

lemma unat_lt_2p16: "unat (b :: uint16_t) < 65536"
  using unsigned_less [of b, where 'a = nat] by simp

lemma unat_ucast_16_32: "unat (ucast (b :: uint16_t) :: uint32_t) = unat b"
proof -
  have "unat b < 2 ^ 32" using unat_lt_2p16 [of b] by simp
  then show ?thesis by (simp add: unsigned_ucast_eq take_bit_nat_eq_self)
qed

lemma ucast_16_32_eq_0: "(ucast (b :: uint16_t) :: uint32_t) = 0 \<longleftrightarrow> b = 0"
  using unat_ucast_16_32 [of b] by (metis unsigned_eq_0_iff)

lemma unat_block_product:
  "unat (ucast (n :: uint16_t) * (ucast (b :: uint16_t) div 8) :: uint32_t) = unat n * (unat b div 8)"
proof -
  have "unat n * (unat b div 8) \<le> 65535 * 8191"
    using unat_lt_2p16 [of n] unat_lt_2p16 [of b] by (intro mult_mono) auto
  then have "unat n * (unat b div 8) < 4294967296" by simp
  moreover have "unat b div 8 < 4294967296"
    using unat_lt_2p16 [of b] by simp
  ultimately show ?thesis
    by (simp add: unat_word_ariths unat_div unat_ucast_16_32)
qed

subsection \<open>The sample count\<close>

text \<open>
  C9. For every Wave, \<open>nsamples\<close> is the data chunk's \<open>chunk_size\<close> divided by
  \<open>block_align\<close>, and it is 0 when either is zero: the result is always a value (\<open>Inr\<close>),
  so the division is never reached with a zero divisor.
\<close>

theorem nsamples_well_defined:
  "nsamples w =
     Inr (if chunk_size (data_chunk w) = 0 \<or> block_align (fmt_chunk w) = 0 then 0
          else chunk_size (data_chunk w) div ucast (block_align (fmt_chunk w)))"
  by (simp add: nsamples_def unsigned_div_def bytes_per_sample_def ucast_16_32_eq_0)

subsection \<open>Out-of-range sample access\<close>

text \<open>
  C1. For every Wave and every offset at or beyond \<open>nsamples\<close>, \<open>GetSample\<close> returns 0
  and \<open>SetSample\<close> returns the container unchanged (every sample and every other field);
  neither signals anything.
\<close>

theorem out_of_range_is_silent:
  assumes "nsamples w = Inr n" and "n \<le> offset"
  shows "GetSample w offset = Inr 0 \<and> SetSample w offset x = Inr w"
  using assms by (simp add: GetSample_def SetSample_def)

text \<open>An instance: a default container resized to two samples, accessed at offset 2.\<close>

definition two_sample_wave :: Wave where
  "two_sample_wave =
     Wave_ctor\<lparr>data_chunk :=
       \<lparr>chunk_type = 0x61746164, chunk_size = 4, data_ptr = Array [0, 0, 0, 0], data_length = 4\<rparr>\<rparr>"

lemma Resize_two_samples: "Resize (\<lambda>_. 0) 2 Wave_ctor = Inr two_sample_wave"
  by (simp add: two_sample_wave_def Resize_def UpdateFmtValues_def Wave_ctor_def
      FmtChunk_ctor_def DataChunk_ctor_def Chunk_ctor_def ReAllocData_def bytes_per_sample_def
      DEFAULT_NCHANNELS_def DEFAULT_BITS_PER_SAMPLE_def DEFAULT_BLOCK_ALIGN_def
      DEFAULT_BYTES_PER_SEC_def DEFAULT_SAMPLE_RATE_def CHUNK_TYPE_DATA_def CHUNK_TYPE_FMT_def
      CHUNK_TYPE_RIFF_def DEFAULT_CHUNK_SIZE_DATA_def upt_rec)

theorem out_of_range_is_silent_witness:
  "nsamples two_sample_wave = Inr 2 \<and> (2 :: uint32_t) \<le> 2 \<and>
   GetSample two_sample_wave 2 = Inr 0 \<and>
   SetSample two_sample_wave 2 (1 / 2) = Inr two_sample_wave"
proof -
  have h: "nsamples two_sample_wave = Inr 2"
    by (simp add: two_sample_wave_def Wave_ctor_def FmtChunk_ctor_def nsamples_def
        bytes_per_sample_def unsigned_div_def DEFAULT_NCHANNELS_def DEFAULT_BITS_PER_SAMPLE_def
        DEFAULT_BLOCK_ALIGN_def)
  show ?thesis
    using out_of_range_is_silent [OF h, of 2 "1 / 2"] h by simp
qed

subsection \<open>What Save writes\<close>

lemma fold_chunk_size:
  "fold (\<lambda>it t. t + chunk_size it) cs t0 = t0 + sum_list (map chunk_size cs)"
  by (induction cs arbitrary: t0) (simp_all add: add.assoc)

lemma unat_sum_list_chunk_size:
  "unat (sum_list (map chunk_size cs) :: uint32_t) = sum_list (map (\<lambda>c. unat (chunk_size c)) cs) mod 2 ^ 32"
  by (induction cs) (simp_all add: unat_word_ariths mod_add_right_eq)

lemma UpdateRiffFileSize_size:
  "chunk_size (riff_chunk (UpdateRiffFileSize w)) =
     24 + 4 + chunk_size (fmt_chunk w) + chunk_size (data_chunk w)
       + sum_list (map chunk_size (other_chunks w))"
  by (simp add: UpdateRiffFileSize_def Let_def fold_chunk_size)

lemma UpdateRiffFileSize_unat:
  "unat (chunk_size (riff_chunk (UpdateRiffFileSize w))) =
     (24 + 4 + unat (chunk_size (fmt_chunk w)) + unat (chunk_size (data_chunk w))
       + sum_list (map (\<lambda>c. unat (chunk_size c)) (other_chunks w))) mod 2 ^ 32"
  apply (simp add: UpdateRiffFileSize_size)
  apply (simp add: unat_word_ariths unat_sum_list_chunk_size)
  apply (simp add: mod_simps)
  done

lemma WriteLittleEndian_loop_append:
  "WriteLittleEndian_loop i n x s = s @ WriteLittleEndian_loop i n x []"
proof (induction "n - i" arbitrary: i s)
  case 0
  then show ?case by (simp add: WriteLittleEndian_loop.simps)
next
  case (Suc k)
  then have lt: "i < n" and k: "k = n - (i + 1)" by simp_all
  let ?b = "ucast (drop_bit (8 * i) x AND 0xff) :: byte"
  have step: "WriteLittleEndian_loop i n x t = WriteLittleEndian_loop (i + 1) n x (t @ [?b])" for t
    using lt by (subst WriteLittleEndian_loop.simps) (simp add: ostream_write_def)
  have "WriteLittleEndian_loop i n x s = (s @ [?b]) @ WriteLittleEndian_loop (i + 1) n x []"
    using step [of s] Suc.hyps(1) [OF k, of "s @ [?b]"] by simp
  moreover have "WriteLittleEndian_loop i n x [] = [?b] @ WriteLittleEndian_loop (i + 1) n x []"
    using step [of "[]"] Suc.hyps(1) [OF k, of "[?b]"] by simp
  ultimately show ?case by simp
qed

lemma WriteLittleEndian_append: "WriteLittleEndian x s = s @ WriteLittleEndian x []"
  unfolding WriteLittleEndian_def by (rule WriteLittleEndian_loop_append)

lemma Chunk_WriteTo_append: "Chunk_WriteTo c s = s @ Chunk_WriteTo c []"
  unfolding Chunk_WriteTo_def
  by (metis WriteLittleEndian_append append.assoc append_Nil)

lemma Chunk_WriteTo_bytes:
  "Chunk_WriteTo c [] = WriteLittleEndian (chunk_type c) [] @ WriteLittleEndian (chunk_size c) []"
  unfolding Chunk_WriteTo_def by (rule WriteLittleEndian_append)

lemma RiffChunk_WriteTo_bytes:
  "RiffChunk_WriteTo c s = s @ Chunk_WriteTo c [] @ WriteLittleEndian (riff_type c) []"
  unfolding RiffChunk_WriteTo_def
  by (metis WriteLittleEndian_append Chunk_WriteTo_append append.assoc)

lemma FmtChunk_WriteTo_bytes:
  "FmtChunk_WriteTo c s =
     s @ Chunk_WriteTo c [] @ WriteLittleEndian (compression c) [] @ WriteLittleEndian (nchannels c) []
       @ WriteLittleEndian (sample_rate c) [] @ WriteLittleEndian (bytes_per_sec c) []
       @ WriteLittleEndian (block_align c) [] @ WriteLittleEndian (bits_per_sample c) []"
proof -
  define W16 where "W16 = (\<lambda>x :: uint16_t. WriteLittleEndian x [])"
  define W32 where "W32 = (\<lambda>x :: uint32_t. WriteLittleEndian x [])"
  have r16: "WriteLittleEndian x t = t @ W16 x" for x t
    unfolding W16_def by (rule WriteLittleEndian_append)
  have r32: "WriteLittleEndian x t = t @ W32 x" for x t
    unfolding W32_def by (rule WriteLittleEndian_append)
  have "FmtChunk_WriteTo c s =
     Chunk_WriteTo c s @ W16 (compression c) @ W16 (nchannels c)
       @ W32 (sample_rate c) @ W32 (bytes_per_sec c)
       @ W16 (block_align c) @ W16 (bits_per_sample c)"
    unfolding FmtChunk_WriteTo_def by (simp add: r16 r32)
  then show ?thesis
    unfolding W16_def W32_def by (subst (asm) Chunk_WriteTo_append) simp
qed

text \<open>The bytes of a Raw Section on disk: its header, then \<open>data_length\<close> bytes of its array.\<close>

definition DataChunk_bytes :: "DataChunk \<Rightarrow> byte list" where
  "DataChunk_bytes c = Chunk_WriteTo c [] @ take (unat (data_length c)) (data c)"

lemma DataChunk_WriteTo_bytes:
  "unat (data_length c) \<le> length (data c) \<Longrightarrow> DataChunk_WriteTo c s = Inr (s @ DataChunk_bytes c)"
  by (simp add: DataChunk_WriteTo_def DataChunk_bytes_def ostream_write_def Let_def
      Chunk_WriteTo_append [of c s])


lemma DataChunk_WriteTo_Inr:
  "DataChunk_WriteTo c s = Inr s' \<Longrightarrow> s' = s @ DataChunk_bytes c"
  by (auto simp: DataChunk_WriteTo_def DataChunk_bytes_def ostream_write_def Let_def
      Chunk_WriteTo_append [of c s] split: if_splits)

lemma Save_loop_Inr:
  "Save_loop cs s = Inr s' \<Longrightarrow> s' = s @ concat (map DataChunk_bytes cs)"
proof (induction cs arbitrary: s)
  case Nil
  then show ?case by simp
next
  case (Cons c cs)
  from Cons.prems obtain s1 where s1: "DataChunk_WriteTo c s = Inr s1"
    and rest: "Save_loop cs s1 = Inr s'"
    by (auto split: sum.splits)
  have "s1 = s @ DataChunk_bytes c" using DataChunk_WriteTo_Inr [OF s1] .
  moreover have "s' = s1 @ concat (map DataChunk_bytes cs)" using Cons.IH [OF rest] .
  ultimately show ?case by simp
qed

lemma UpdateFmtValues_other [simp]:
  "riff_chunk (UpdateFmtValues w) = riff_chunk w"
  "data_chunk (UpdateFmtValues w) = data_chunk w"
  "other_chunks (UpdateFmtValues w) = other_chunks w"
  by (simp_all add: UpdateFmtValues_def Let_def)

lemma UpdateRiffFileSize_other [simp]:
  "fmt_chunk (UpdateRiffFileSize w) = fmt_chunk w"
  "data_chunk (UpdateRiffFileSize w) = data_chunk w"
  "other_chunks (UpdateRiffFileSize w) = other_chunks w"
  "riff_type (riff_chunk (UpdateRiffFileSize w)) = riff_type (riff_chunk w)"
  "chunk_type (riff_chunk (UpdateRiffFileSize w)) = chunk_type (riff_chunk w)"
  by (simp_all add: UpdateRiffFileSize_def Let_def)

lemma Save_Inr:
  assumes "Save True filename w = Inr (w', out, msgs)"
  shows "w' = UpdateFmtValues (UpdateRiffFileSize w) \<and> msgs = [] \<and>
     out = Some (Chunk_WriteTo (riff_chunk w') [] @ WriteLittleEndian (riff_type (riff_chunk w')) []
                 @ FmtChunk_WriteTo (fmt_chunk w') []
                 @ concat (map DataChunk_bytes (other_chunks w))
                 @ DataChunk_bytes (data_chunk w))"
proof -
  let ?w2 = "UpdateFmtValues (UpdateRiffFileSize w)"
  let ?f2 = "FmtChunk_WriteTo (fmt_chunk ?w2) (RiffChunk_WriteTo (riff_chunk ?w2) [])"
  obtain f3 where f3: "Save_loop (other_chunks w) ?f2 = Inr f3"
    using assms by (auto simp: Save_def Let_def split: sum.splits)
  obtain f4 where f4: "DataChunk_WriteTo (data_chunk w) f3 = Inr f4"
    using assms f3 by (auto simp: Save_def Let_def split: sum.splits)
  have res: "w' = ?w2" "out = Some f4" "msgs = []"
    using assms f3 f4 by (auto simp: Save_def Let_def)
  have "f3 = ?f2 @ concat (map DataChunk_bytes (other_chunks w))"
    using Save_loop_Inr [OF f3] .
  moreover have "f4 = f3 @ DataChunk_bytes (data_chunk w)"
    using DataChunk_WriteTo_Inr [OF f4] .
  moreover have "?f2 = Chunk_WriteTo (riff_chunk ?w2) [] @ WriteLittleEndian (riff_type (riff_chunk ?w2)) []
                 @ FmtChunk_WriteTo (fmt_chunk ?w2) []"
    by (subst FmtChunk_WriteTo_bytes) (simp add: RiffChunk_WriteTo_bytes FmtChunk_WriteTo_bytes [of _ "[]"])
  ultimately show ?thesis using res by simp
qed



subsection \<open>Concrete containers and files\<close>

lemmas ctor_defs = Wave_ctor_def RiffChunk_ctor_def FmtChunk_ctor_def DataChunk_ctor_def
  DataChunk_ctor_type_def Chunk_ctor_def CHUNK_TYPE_RIFF_def CHUNK_TYPE_FMT_def CHUNK_TYPE_DATA_def
  DEFAULT_CHUNK_SIZE_FMT_def DEFAULT_CHUNK_SIZE_DATA_def DEFAULT_CHUNK_SIZE_RIFF_def
  RIFF_TYPE_WAVE_def COMPRESSION_NONE_def DEFAULT_COMPRESSION_def DEFAULT_NCHANNELS_def
  DEFAULT_SAMPLE_RATE_def DEFAULT_BITS_PER_SAMPLE_def DEFAULT_BLOCK_ALIGN_def
  DEFAULT_BYTES_PER_SEC_def

lemmas write_defs = Save_def RiffChunk_WriteTo_def FmtChunk_WriteTo_def DataChunk_WriteTo_def
  Chunk_WriteTo_def WriteLittleEndian_def WriteLittleEndian_loop.simps ostream_write_def
  UpdateRiffFileSize_def UpdateFmtValues_def

lemma push_back_Nil:
  "push_back U G [] x = (case DataChunk_copy U x of Inl f \<Rightarrow> Inl f | Inr x' \<Rightarrow> Inr [x'])"
  by (simp add: push_back_def split: sum.splits)

lemmas read_defs = Load_def LoadMetadata_def Load_stream_def Load_loop.simps ReadLittleEndian_def
  ReadLittleEndian_loop.simps istream_read_def istream_ignore_def Chunk_ReadFrom_def
  RiffChunk_ReadFrom_def FmtChunk_ReadFrom_def DataChunk_ReadFrom_def Skip_def DataChunk_copy_def
  DataChunk_dtor_def memcpy_def ReAllocData_def data_def store_def push_back_Nil
  not_a_wav_file_def

text \<open>
  A default container with one extra section (tag \<^verbatim>\<open>LIST\<close>, three bytes), and the file
  \<open>Save\<close> writes for it.
\<close>

definition wave_with_extra :: Wave where
  "wave_with_extra =
     Wave_ctor\<lparr>other_chunks :=
       [\<lparr>chunk_type = 0x5453494C, chunk_size = 3, data_ptr = Array [0, 0, 0, 0],
         data_length = 4\<rparr>]\<rparr>"

definition wave_with_extra_file :: "byte list" where
  "wave_with_extra_file =
     [82, 73, 70, 70, 47, 0, 0, 0, 87, 65, 86, 69,
      102, 109, 116, 32, 16, 0, 0, 0, 1, 0, 1, 0, 34, 86, 0, 0, 68, 172, 0, 0, 2, 0, 16, 0,
      76, 73, 83, 84, 3, 0, 0, 0, 0, 0, 0, 0,
      100, 97, 116, 97, 0, 0, 0, 0]"

lemma Save_wave_with_extra:
  "Save True ''a.wav'' wave_with_extra =
     Inr (UpdateFmtValues (UpdateRiffFileSize wave_with_extra), Some wave_with_extra_file, [])"
  by (simp add: wave_with_extra_def wave_with_extra_file_def ctor_defs write_defs data_def)






subsection \<open>The order of the sections\<close>



subsection \<open>The size of the Riff chunk\<close>

text \<open>
  C6. A \<open>Save\<close> that opens its file recomputes the Riff chunk's size as 24 + 4 + the
  Format chunk's size + the Data chunk's size + the sizes of the extra chunks (their
  headers are not counted), in 32-bit unsigned arithmetic, before it writes the header.
\<close>

theorem Save_recomputes_riff_size:
  assumes "Save True filename w = Inr (w', out, msgs)"
  shows "chunk_size (riff_chunk w') =
           24 + 4 + chunk_size (fmt_chunk w) + chunk_size (data_chunk w)
             + sum_list (map chunk_size (other_chunks w))
       \<and> unat (chunk_size (riff_chunk w')) =
           (24 + 4 + unat (chunk_size (fmt_chunk w)) + unat (chunk_size (data_chunk w))
             + sum_list (map (\<lambda>c. unat (chunk_size c)) (other_chunks w))) mod 2 ^ 32
       \<and> (\<exists>rest. out = Some (WriteLittleEndian (chunk_type (riff_chunk w)) []
                              @ WriteLittleEndian (chunk_size (riff_chunk w')) [] @ rest))"
proof -
  from Save_Inr [OF assms]
  have w': "w' = UpdateFmtValues (UpdateRiffFileSize w)"
    and out: "out = Some (Chunk_WriteTo (riff_chunk w') [] @ WriteLittleEndian (riff_type (riff_chunk w')) []
                 @ FmtChunk_WriteTo (fmt_chunk w') []
                 @ concat (map DataChunk_bytes (other_chunks w))
                 @ DataChunk_bytes (data_chunk w))"
    by simp_all
  have "chunk_size (riff_chunk w') = chunk_size (riff_chunk (UpdateRiffFileSize w))"
    and "chunk_type (riff_chunk w') = chunk_type (riff_chunk w)"
    using w' by simp_all
  then show ?thesis
    using out UpdateRiffFileSize_size [of w] UpdateRiffFileSize_unat [of w]
    by (simp add: Chunk_WriteTo_bytes)
qed

theorem Save_recomputes_riff_size_witness:
  "Save True ''a.wav'' wave_with_extra =
     Inr (UpdateFmtValues (UpdateRiffFileSize wave_with_extra), Some wave_with_extra_file, [])
   \<and> chunk_size (fmt_chunk wave_with_extra) = 16
   \<and> chunk_size (data_chunk wave_with_extra) = 0
   \<and> map chunk_size (other_chunks wave_with_extra) = [3]
   \<and> chunk_size (riff_chunk (UpdateFmtValues (UpdateRiffFileSize wave_with_extra))) = 47"
proof -
  have s: "chunk_size (fmt_chunk wave_with_extra) = 16"
    "chunk_size (data_chunk wave_with_extra) = 0"
    "map chunk_size (other_chunks wave_with_extra) = [3]"
    by (simp_all add: wave_with_extra_def ctor_defs)
  then show ?thesis
    using Save_recomputes_riff_size [OF Save_wave_with_extra] Save_wave_with_extra by simp
qed

subsection \<open>The derived format values\<close>

lemma UpdateFmtValues_fmt:
  "fmt_chunk (UpdateFmtValues w) =
     (fmt_chunk w)\<lparr>bytes_per_sec :=
                      sample_rate (fmt_chunk w) * ucast (nchannels (fmt_chunk w))
                        * (ucast (bits_per_sample (fmt_chunk w)) div 8),
                    block_align :=
                      ucast (ucast (nchannels (fmt_chunk w))
                        * (ucast (bits_per_sample (fmt_chunk w)) div 8) :: 32 word)\<rparr>"
  by (simp add: UpdateFmtValues_def Let_def)

lemma UpdateFmtValues_block_align:
  "unat (block_align (fmt_chunk (UpdateFmtValues w))) =
      (unat (nchannels (fmt_chunk w)) * (unat (bits_per_sample (fmt_chunk w)) div 8)) mod 2 ^ 16"
  by (simp add: UpdateFmtValues_fmt unsigned_ucast_eq unat_block_product take_bit_eq_mod)

lemma UpdateFmtValues_bytes_per_sec:
  "unat (bytes_per_sec (fmt_chunk (UpdateFmtValues w))) =
      (unat (sample_rate (fmt_chunk w))
         * (unat (nchannels (fmt_chunk w)) * (unat (bits_per_sample (fmt_chunk w)) div 8)))
      mod 2 ^ 32"
  apply (simp add: UpdateFmtValues_fmt mult.assoc)
  apply (subst unat_word_ariths)
  apply (simp add: unat_block_product mod_mult_right_eq)
  done

lemma UpdateFmtValues_consistent:
  assumes "unat (nchannels (fmt_chunk w)) * (unat (bits_per_sample (fmt_chunk w)) div 8) < 2 ^ 16"
  shows "bytes_per_sec (fmt_chunk (UpdateFmtValues w)) =
           sample_rate (fmt_chunk (UpdateFmtValues w))
             * ucast (block_align (fmt_chunk (UpdateFmtValues w)))"
proof -
  let ?p = "ucast (nchannels (fmt_chunk w)) * (ucast (bits_per_sample (fmt_chunk w)) div 8) :: 32 word"
  have "unat ?p < 2 ^ 16" using assms by (simp add: unat_block_product)
  then have "unat (ucast (ucast ?p :: 16 word) :: 32 word) = unat ?p"
    by (simp add: unsigned_ucast_eq unsigned_take_bit_eq take_bit_nat_eq_self)
  then have "(ucast (ucast ?p :: 16 word) :: 32 word) = ?p"
    by (simp add: word_unat_eq_iff)
  then show ?thesis
    by (simp add: UpdateFmtValues_fmt mult.assoc)
qed

lemma UpdateFmtValues_ignores_old:
  "UpdateFmtValues (w\<lparr>fmt_chunk := (fmt_chunk w)\<lparr>block_align := a, bytes_per_sec := b\<rparr>\<rparr>)
     = UpdateFmtValues w"
  by (simp add: UpdateFmtValues_def Let_def)

lemma Resize_total:
  "data_ptr (data_chunk w) \<noteq> Deleted \<Longrightarrow> \<exists>r. Resize U n w = Inr r"
  by (simp add: Resize_def ReAllocData_def Let_def)

lemma Resize_fmt:
  assumes "Resize U n w = Inr r"
  shows "fmt_chunk r = fmt_chunk (UpdateFmtValues w) \<and>
     ReAllocData U (n * ucast (block_align (fmt_chunk (UpdateFmtValues w)))) (data_chunk w)
       = Inr (data_chunk r)"
  using assms by (auto simp: Resize_def Let_def bytes_per_sample_def split: sum.splits)

lemma Save_fmt:
  assumes "Save True filename w = Inr (w', out, msgs)"
  shows "fmt_chunk w' = fmt_chunk (UpdateFmtValues w) \<and>
         (\<exists>pre post. out = Some (pre @ FmtChunk_WriteTo (fmt_chunk w') [] @ post))"
proof -
  from Save_Inr [OF assms]
  have w': "w' = UpdateFmtValues (UpdateRiffFileSize w)"
    and out: "out = Some ((Chunk_WriteTo (riff_chunk w') [] @ WriteLittleEndian (riff_type (riff_chunk w')) [])
                 @ FmtChunk_WriteTo (fmt_chunk w') []
                 @ (concat (map DataChunk_bytes (other_chunks w)) @ DataChunk_bytes (data_chunk w)))"
    by simp_all
  have "fmt_chunk w' = fmt_chunk (UpdateFmtValues w)"
    by (simp add: w' UpdateFmtValues_fmt)
  then show ?thesis using out by blast
qed

text \<open>A default container with 32768 channels of 16 bits.\<close>

definition wide_format_wave :: Wave where
  "wide_format_wave = Wave_ctor\<lparr>fmt_chunk := FmtChunk_ctor\<lparr>nchannels := 0x8000\<rparr>\<rparr>"

text \<open>
  C7, as the claim states it, fails: \<open>block_align\<close> is a 16-bit field, and the byte rate
  is computed from the fields themselves, not from the truncated \<open>block_align\<close>. With
  32768 channels of 16 bits the recomputed \<open>block_align\<close> is 0 while \<open>bytes_per_sec\<close> is
  22050 * 65536.
\<close>

theorem byte_rate_is_not_rate_times_block_align:
  "block_align (fmt_chunk (UpdateFmtValues wide_format_wave)) = 0 \<and>
   sample_rate (fmt_chunk (UpdateFmtValues wide_format_wave)) = 22050 \<and>
   bytes_per_sec (fmt_chunk (UpdateFmtValues wide_format_wave)) = 1445068800 \<and>
   bytes_per_sec (fmt_chunk (UpdateFmtValues wide_format_wave)) \<noteq>
     sample_rate (fmt_chunk (UpdateFmtValues wide_format_wave))
       * ucast (block_align (fmt_chunk (UpdateFmtValues wide_format_wave)))"
  by (simp add: wide_format_wave_def UpdateFmtValues_def ctor_defs)

text \<open>
  C7, amended. Before every \<open>Save\<close> that opens its file, and at the start of every
  \<open>Resize\<close>, \<open>block_align\<close> is recomputed as \<open>nchannels * (bits_per_sample / 8)\<close> reduced
  to 16 bits and \<open>bytes_per_sec\<close> as \<open>sample_rate * nchannels * (bits_per_sample / 8)\<close> in
  32-bit arithmetic, whatever the two fields held before; \<open>bytes_per_sec\<close> is
  \<open>sample_rate\<close> times the recomputed \<open>block_align\<close> whenever
  \<open>nchannels * (bits_per_sample / 8)\<close> fits in 16 bits. \<open>Resize\<close> returns whenever the Data
  chunk's pointer does not hold the address of a deleted array, and the container it
  returns has the recomputed values and the Data chunk reallocated from them.
\<close>

theorem fmt_values_recomputed:
  "unat (block_align (fmt_chunk (UpdateFmtValues w))) =
      (unat (nchannels (fmt_chunk w)) * (unat (bits_per_sample (fmt_chunk w)) div 8)) mod 2 ^ 16
   \<and> unat (bytes_per_sec (fmt_chunk (UpdateFmtValues w))) =
      (unat (sample_rate (fmt_chunk w))
         * (unat (nchannels (fmt_chunk w)) * (unat (bits_per_sample (fmt_chunk w)) div 8)))
      mod 2 ^ 32
   \<and> (unat (nchannels (fmt_chunk w)) * (unat (bits_per_sample (fmt_chunk w)) div 8) < 2 ^ 16
        \<longrightarrow> bytes_per_sec (fmt_chunk (UpdateFmtValues w)) =
              sample_rate (fmt_chunk (UpdateFmtValues w))
                * ucast (block_align (fmt_chunk (UpdateFmtValues w))))
   \<and> UpdateFmtValues (w\<lparr>fmt_chunk := (fmt_chunk w)\<lparr>block_align := a, bytes_per_sec := b\<rparr>\<rparr>)
        = UpdateFmtValues w
   \<and> (data_ptr (data_chunk w) \<noteq> Deleted \<longrightarrow> (\<exists>r. Resize U n w = Inr r))
   \<and> (Resize U n w = Inr resized
        \<longrightarrow> fmt_chunk resized = fmt_chunk (UpdateFmtValues w) \<and>
            ReAllocData U (n * ucast (block_align (fmt_chunk (UpdateFmtValues w)))) (data_chunk w)
              = Inr (data_chunk resized))
   \<and> (Save True filename w = Inr (w', out, msgs)
        \<longrightarrow> fmt_chunk w' = fmt_chunk (UpdateFmtValues w) \<and>
            (\<exists>pre post. out = Some (pre @ FmtChunk_WriteTo (fmt_chunk w') [] @ post)))"
  using UpdateFmtValues_block_align [of w] UpdateFmtValues_bytes_per_sec [of w]
    UpdateFmtValues_consistent [of w] UpdateFmtValues_ignores_old [where w = w and a = a and b = b]
    Resize_total [where w = w and U = U and n = n]
    Resize_fmt [where w = w and U = U and n = n and r = resized]
    Save_fmt [where w = w and filename = filename and w' = w' and out = out and msgs = msgs]
  by blast

text \<open>
  An instance: a container with three channels of 16 bits at 48000 Hz whose
  \<open>block_align\<close> and \<open>bytes_per_sec\<close> hold the stale values 99 and 7. \<open>Save\<close> and \<open>Resize\<close>
  replace them by 6 and 288000.
\<close>

definition stale_format_wave :: Wave where
  "stale_format_wave =
     Wave_ctor\<lparr>fmt_chunk :=
       FmtChunk_ctor\<lparr>nchannels := 3, sample_rate := 48000, block_align := 99,
                      bytes_per_sec := 7\<rparr>\<rparr>"

definition stale_format_wave_file :: "byte list" where
  "stale_format_wave_file =
     [82, 73, 70, 70, 44, 0, 0, 0, 87, 65, 86, 69,
      102, 109, 116, 32, 16, 0, 0, 0, 1, 0, 3, 0, 128, 187, 0, 0, 0, 101, 4, 0, 6, 0, 16, 0,
      100, 97, 116, 97, 0, 0, 0, 0]"

lemma Save_stale_format_wave:
  "Save True ''a.wav'' stale_format_wave =
     Inr (UpdateFmtValues (UpdateRiffFileSize stale_format_wave), Some stale_format_wave_file, [])"
  by (simp add: stale_format_wave_def stale_format_wave_file_def ctor_defs write_defs data_def)

lemma Resize_stale_format_wave:
  "Resize (\<lambda>_. 0) 1 stale_format_wave =
     Inr ((UpdateFmtValues stale_format_wave)
            \<lparr>data_chunk := \<lparr>chunk_type = 0x61746164, chunk_size = 6,
                            data_ptr = Array [0, 0, 0, 0, 0, 0], data_length = 6\<rparr>\<rparr>)"
  by (simp add: stale_format_wave_def Resize_def UpdateFmtValues_def ReAllocData_def
      bytes_per_sample_def ctor_defs upt_rec)

theorem fmt_values_recomputed_witness:
  "block_align (fmt_chunk stale_format_wave) = 99
   \<and> bytes_per_sec (fmt_chunk stale_format_wave) = 7
   \<and> unat (nchannels (fmt_chunk stale_format_wave))
       * (unat (bits_per_sample (fmt_chunk stale_format_wave)) div 8) < 2 ^ 16
   \<and> block_align (fmt_chunk (UpdateFmtValues stale_format_wave)) = 6
   \<and> bytes_per_sec (fmt_chunk (UpdateFmtValues stale_format_wave)) = 288000
   \<and> bytes_per_sec (fmt_chunk (UpdateFmtValues stale_format_wave)) =
        sample_rate (fmt_chunk (UpdateFmtValues stale_format_wave))
          * ucast (block_align (fmt_chunk (UpdateFmtValues stale_format_wave)))
   \<and> data_ptr (data_chunk stale_format_wave) = Null
   \<and> Resize (\<lambda>_. 0) 1 stale_format_wave =
        Inr ((UpdateFmtValues stale_format_wave)
               \<lparr>data_chunk := \<lparr>chunk_type = 0x61746164, chunk_size = 6,
                               data_ptr = Array [0, 0, 0, 0, 0, 0], data_length = 6\<rparr>\<rparr>)
   \<and> Save True ''a.wav'' stale_format_wave =
        Inr (UpdateFmtValues (UpdateRiffFileSize stale_format_wave), Some stale_format_wave_file, [])
   \<and> fmt_chunk (UpdateFmtValues (UpdateRiffFileSize stale_format_wave))
        = fmt_chunk (UpdateFmtValues stale_format_wave)"
proof -
  have h: "unat (nchannels (fmt_chunk stale_format_wave))
     * (unat (bits_per_sample (fmt_chunk stale_format_wave)) div 8) < 2 ^ 16"
    by (simp add: stale_format_wave_def ctor_defs)
  have v: "block_align (fmt_chunk stale_format_wave) = 99"
    "bytes_per_sec (fmt_chunk stale_format_wave) = 7"
    "block_align (fmt_chunk (UpdateFmtValues stale_format_wave)) = 6"
    "bytes_per_sec (fmt_chunk (UpdateFmtValues stale_format_wave)) = 288000"
    "data_ptr (data_chunk stale_format_wave) = Null"
    by (simp_all add: stale_format_wave_def UpdateFmtValues_def ctor_defs)
  show ?thesis
    using fmt_values_recomputed [where w = stale_format_wave and filename = "''a.wav''"
        and w' = "UpdateFmtValues (UpdateRiffFileSize stale_format_wave)"
        and out = "Some stale_format_wave_file" and msgs = "[]" and U = "\<lambda>_. 0" and n = 1
        and resized = "(UpdateFmtValues stale_format_wave)
               \<lparr>data_chunk := \<lparr>chunk_type = 0x61746164, chunk_size = 6,
                               data_ptr = Array [0, 0, 0, 0, 0, 0], data_length = 6\<rparr>\<rparr>"]
      h v Save_stale_format_wave Resize_stale_format_wave
    by blast
qed

subsection \<open>Load on a file that is not a WAVE file\<close>

text \<open>
  Two files: one whose outer marker is \<^verbatim>\<open>RIFX\<close>, and one whose outer marker is \<^verbatim>\<open>RIFF\<close> but
  whose format-family tag is \<^verbatim>\<open>AVI \<close>. Both declare a Riff size of 100.
\<close>

definition riff_marker_mismatch_file :: "byte list" where
  "riff_marker_mismatch_file =
     [82, 73, 70, 88, 100, 0, 0, 0, 87, 65, 86, 69,
      102, 109, 116, 32, 16, 0, 0, 0, 1, 0, 2, 0, 34, 86, 0, 0, 68, 172, 0, 0, 4, 0, 16, 0]"

definition family_tag_mismatch_file :: "byte list" where
  "family_tag_mismatch_file =
     [82, 73, 70, 70, 100, 0, 0, 0, 65, 86, 73, 32,
      102, 109, 116, 32, 16, 0, 0, 0, 1, 0, 2, 0, 34, 86, 0, 0, 68, 172, 0, 0, 4, 0, 16, 0]"

text \<open>
  C5, as the claim states it, fails for the first kind of mismatch: when the outer marker
  is not the RIFF tag, \<open>Load\<close> returns before it reads the Riff Section, which keeps the
  size 36 it had although the file declares 100.
\<close>

theorem Load_marker_mismatch_leaves_riff_default:
  "Load (\<lambda>_. 0) (\<lambda>_. True) \<lparr>content = riff_marker_mismatch_file, good = True\<rparr> ''in.wav''
       Wave_ctor
     = Inr (Wave_ctor, [not_a_wav_file ''in.wav''])
   \<and> chunk_size (riff_chunk Wave_ctor) = 36
   \<and> take 4 (drop 4 riff_marker_mismatch_file) = WriteLittleEndian (100 :: uint32_t) []"
  by (simp add: riff_marker_mismatch_file_def read_defs ctor_defs WriteLittleEndian_def
      WriteLittleEndian_loop.simps ostream_write_def)

text \<open>
  C5, amended. \<open>marker\<close>, \<open>sz\<close> and \<open>tag\<close> are the three 32-bit values at the head of an
  opened stream. When the marker is not the RIFF tag, \<open>Load\<close> and \<open>LoadMetadata\<close> report
  the format error and leave the whole container as it was (the Riff Section is not
  populated). When the marker is the RIFF tag and the format-family tag is not the WAVE
  marker, they report the same error and only the Riff Section's size and tag are taken
  from the stream; everything else is left as it was, which for a new container is its
  defaults.
\<close>

theorem Load_format_mismatch:
  assumes "good file"
    and "(ReadLittleEndian U file :: uint32_t \<times> istream) = (marker, f1)"
    and "(ReadLittleEndian U f1 :: uint32_t \<times> istream) = (sz, f2)"
    and "(ReadLittleEndian U f2 :: uint32_t \<times> istream) = (tag, f3)"
  shows "(marker \<noteq> CHUNK_TYPE_RIFF \<longrightarrow>
            Load U G file filename w = Inr (w, [not_a_wav_file filename]) \<and>
            LoadMetadata U G file filename w = Inr (w, [not_a_wav_file filename]))
       \<and> (marker = CHUNK_TYPE_RIFF \<and> tag \<noteq> RIFF_TYPE_WAVE \<longrightarrow>
            Load U G file filename w =
              Inr (w\<lparr>riff_chunk := (riff_chunk w)\<lparr>chunk_size := sz, riff_type := tag\<rparr>\<rparr>,
                   [not_a_wav_file filename]) \<and>
            LoadMetadata U G file filename w =
              Inr (w\<lparr>riff_chunk := (riff_chunk w)\<lparr>chunk_size := sz, riff_type := tag\<rparr>\<rparr>,
                   [not_a_wav_file filename]))"
  using assms
  by (simp add: Load_def LoadMetadata_def Load_stream_def RiffChunk_ReadFrom_def
      Chunk_ReadFrom_def Let_def)

theorem Load_format_mismatch_witness:
  "Load (\<lambda>_. 0) (\<lambda>_. True) \<lparr>content = riff_marker_mismatch_file, good = True\<rparr> ''in.wav''
       wave_with_extra
     = Inr (wave_with_extra, [not_a_wav_file ''in.wav''])
   \<and> LoadMetadata (\<lambda>_. 0) (\<lambda>_. True) \<lparr>content = family_tag_mismatch_file, good = True\<rparr> ''in.wav''
       wave_with_extra
     = Inr (wave_with_extra\<lparr>riff_chunk := (riff_chunk wave_with_extra)\<lparr>chunk_size := 100, riff_type := 0x20495641\<rparr>\<rparr>,
            [not_a_wav_file ''in.wav''])"
proof -
  let ?U = "\<lambda>_ :: nat. 0 :: byte"
  let ?a = "\<lparr>content = riff_marker_mismatch_file, good = True\<rparr>"
  let ?b = "\<lparr>content = family_tag_mismatch_file, good = True\<rparr>"
  have a1: "(ReadLittleEndian ?U ?a :: uint32_t \<times> istream)
      = (0x58464952, \<lparr>content = drop 4 riff_marker_mismatch_file, good = True\<rparr>)"
    by (simp add: riff_marker_mismatch_file_def ReadLittleEndian_def ReadLittleEndian_loop.simps
        istream_read_def)
  have a2: "(ReadLittleEndian ?U \<lparr>content = drop 4 riff_marker_mismatch_file, good = True\<rparr> :: uint32_t \<times> istream)
      = (100, \<lparr>content = drop 8 riff_marker_mismatch_file, good = True\<rparr>)"
    by (simp add: riff_marker_mismatch_file_def ReadLittleEndian_def ReadLittleEndian_loop.simps
        istream_read_def)
  have a3: "(ReadLittleEndian ?U \<lparr>content = drop 8 riff_marker_mismatch_file, good = True\<rparr> :: uint32_t \<times> istream)
      = (0x45564157, \<lparr>content = drop 12 riff_marker_mismatch_file, good = True\<rparr>)"
    by (simp add: riff_marker_mismatch_file_def ReadLittleEndian_def ReadLittleEndian_loop.simps
        istream_read_def)
  have b1: "(ReadLittleEndian ?U ?b :: uint32_t \<times> istream)
      = (CHUNK_TYPE_RIFF, \<lparr>content = drop 4 family_tag_mismatch_file, good = True\<rparr>)"
    by (simp add: family_tag_mismatch_file_def ReadLittleEndian_def ReadLittleEndian_loop.simps
        istream_read_def CHUNK_TYPE_RIFF_def)
  have b2: "(ReadLittleEndian ?U \<lparr>content = drop 4 family_tag_mismatch_file, good = True\<rparr> :: uint32_t \<times> istream)
      = (100, \<lparr>content = drop 8 family_tag_mismatch_file, good = True\<rparr>)"
    by (simp add: family_tag_mismatch_file_def ReadLittleEndian_def ReadLittleEndian_loop.simps
        istream_read_def)
  have b3: "(ReadLittleEndian ?U \<lparr>content = drop 8 family_tag_mismatch_file, good = True\<rparr> :: uint32_t \<times> istream)
      = (0x20495641, \<lparr>content = drop 12 family_tag_mismatch_file, good = True\<rparr>)"
    by (simp add: family_tag_mismatch_file_def ReadLittleEndian_def ReadLittleEndian_loop.simps
        istream_read_def)
  have g: "good ?a" "good ?b" by simp_all
  have n1: "(0x58464952 :: uint32_t) \<noteq> CHUNK_TYPE_RIFF"
    and n2: "(0x20495641 :: uint32_t) \<noteq> RIFF_TYPE_WAVE"
    by (simp_all add: CHUNK_TYPE_RIFF_def RIFF_TYPE_WAVE_def)
  show ?thesis
    using Load_format_mismatch [OF g(1) a1 a2 a3, where filename = "''in.wav''"
          and w = wave_with_extra and G = "\<lambda>_. True"]
      Load_format_mismatch [OF g(2) b1 b2 b3, where filename = "''in.wav''"
          and w = wave_with_extra and G = "\<lambda>_. True"] n1 n2
    by simp
qed

lemmas codec_loops = max_thing_value_loop.simps GetValue_loop.simps TakeChannelAvg_loop.simps
  PutChannelAvg_inner.simps PutChannelAvg_outer.simps

lemmas double_defs = double_add_def double_sub_def double_mul_def double_div_def
  unsigned_to_double_def ulonglong_to_double_def round_double_def ulp_def exponent_def
  floor_log2.simps round_half_even_def Let_def

subsection \<open>Word alignment of a DataChunk\<close>

lemma unat_lt_max32:
  assumes "(n :: uint32_t) \<noteq> - 1"
  shows "unat n < 4294967295"
proof -
  have "unat n < 4294967296" using unsigned_less [of n, where 'a = nat] by simp
  moreover have "unat n \<noteq> 4294967295"
  proof
    assume "unat n = 4294967295"
    then have "unat n = unat (- 1 :: uint32_t)"
      by (simp add: unsigned_minus_1_eq_mask mask_eq_exp_minus_1)
    then show False using assms by (simp add: word_unat_eq_iff)
  qed
  ultimately show ?thesis by simp
qed

lemma unat_round_up_even:
  assumes "(n :: uint32_t) \<noteq> - 1"
  shows "unat (n + n mod 2) = unat n + unat n mod 2"
proof -
  have m: "unat (n mod 2) = unat n mod 2" by (simp add: unat_mod)
  have "unat n + unat n mod 2 < 4294967296"
    using unat_lt_max32 [OF assms] by presburger
  then have "unat n + unat (n mod 2) < 2 ^ LENGTH(32)" using m by simp
  then show ?thesis using m by (simp add: unat_add_lem [THEN iffD1])
qed

lemma word_mod_2_eq_0_iff: "(n :: uint32_t) mod 2 = 0 \<longleftrightarrow> even (unat n)"
proof -
  have "(n mod 2 = 0) = (unat (n mod 2) = 0)" by (simp add: unsigned_eq_0_iff)
  then show ?thesis by (simp add: unat_mod even_iff_mod_2_eq_zero)
qed

lemma ReAllocData_total:
  "data_ptr c \<noteq> Deleted \<Longrightarrow> \<exists>r. ReAllocData U n c = Inr r"
  by (simp add: ReAllocData_def Let_def)

lemma ReAllocData_Deleted:
  "data_ptr c = Deleted \<Longrightarrow> ReAllocData U n c = Inl DoubleDelete"
  by (simp add: ReAllocData_def)

lemma ReAllocData_result:
  assumes "ReAllocData U n c = Inr r"
  shows "chunk_type r = chunk_type c" and "chunk_size r = n" and "data_length r = n + n mod 2"
    and "length (data r) = unat (n + n mod 2)" and "data_ptr c \<noteq> Deleted"
    and "n + n mod 2 \<noteq> 0 \<Longrightarrow> data_ptr r = Array (data r)"
  using assms
  by (auto simp: ReAllocData_def Let_def data_def split: if_splits pointer.splits)

lemma ReAllocData_pad:
  assumes r: "ReAllocData U n c = Inr r" and n: "(n :: uint32_t) \<noteq> - 1" and od: "odd (unat n)"
  shows "last (data r) = 0"
proof -
  have len: "unat (n + n mod 2) = unat n + 1"
    using unat_round_up_even [OF n] od by (simp add: odd_iff_mod_2_eq_one)
  then have nz: "n + n mod 2 \<noteq> 0" by (metis Suc_eq_plus1 nat.simps(3) unat_0 add.commute)
  have odd: "n mod 2 \<noteq> 0" using od by (simp add: word_mod_2_eq_0_iff)
  let ?fresh = "map U [0..<unat (n + n mod 2)]"
  have "data r = ?fresh[unat (n + n mod 2) - 1 := 0]"
    using r nz odd by (auto simp: ReAllocData_def Let_def data_def split: if_splits)
  moreover have "?fresh \<noteq> []" using len by simp
  ultimately show ?thesis
    by (simp add: last_list_update)
qed

lemma length_WriteLittleEndian32: "length (WriteLittleEndian (x :: uint32_t) []) = 4"
  by (simp add: WriteLittleEndian_def WriteLittleEndian_loop.simps ostream_write_def)

lemma length_Chunk_WriteTo: "length (Chunk_WriteTo c []) = 8"
  by (simp add: Chunk_WriteTo_bytes length_WriteLittleEndian32)

lemma DataChunk_WriteTo_whole:
  assumes "length (data c) = unat (data_length c)"
  shows "DataChunk_WriteTo c s = Inr (s @ Chunk_WriteTo c [] @ data c)"
  using assms DataChunk_WriteTo_bytes [of c s] by (simp add: DataChunk_bytes_def)

lemma ReAllocData_alignment:
  assumes r: "ReAllocData U n c = Inr r" and n: "(n :: uint32_t) \<noteq> - 1"
  shows "chunk_size r = n
    \<and> length (data r) = unat n + unat n mod 2
    \<and> unat (data_length r) = unat n + unat n mod 2
    \<and> (odd (unat n) \<longrightarrow> last (data r) = 0)
    \<and> length (Chunk_WriteTo r []) = 8
    \<and> DataChunk_WriteTo r s = Inr (s @ Chunk_WriteTo r [] @ data r)"
  using unat_round_up_even [OF n] ReAllocData_pad [OF r n] ReAllocData_result [OF r]
    DataChunk_WriteTo_whole [of r s]
  by (simp add: length_Chunk_WriteTo)

lemma istream_read_length:
  "length (fst (istream_read n s)) \<le> n"
  by (simp add: istream_read_def)

lemma data_store:
  "data (c\<lparr>data_ptr := store bs (data_ptr c)\<rparr>) = (case data_ptr c of Array _ \<Rightarrow> bs | _ \<Rightarrow> [])"
  by (simp add: data_def store_def split: pointer.splits)

lemma DataChunk_ReadFrom_total:
  assumes "data_ptr c \<noteq> Deleted"
  shows "\<exists>r strm1. DataChunk_ReadFrom U strm c = Inr (r, strm1)"
proof -
  obtain n s0 where r: "(ReadLittleEndian U strm :: uint32_t \<times> istream) = (n, s0)"
    by (cases "ReadLittleEndian U strm :: uint32_t \<times> istream")
  have "data_ptr (c\<lparr>chunk_size := n\<rparr>) \<noteq> Deleted" using assms by simp
  then obtain a where "ReAllocData U n (c\<lparr>chunk_size := n\<rparr>) = Inr a"
    using ReAllocData_total by blast
  then show ?thesis
    using r by (simp add: DataChunk_ReadFrom_def Chunk_ReadFrom_def split: prod.splits)
qed

lemma DataChunk_ReadFrom_Deleted:
  assumes "data_ptr c = Deleted"
  shows "DataChunk_ReadFrom U strm c = Inl DoubleDelete"
proof -
  obtain n s0 where r: "(ReadLittleEndian U strm :: uint32_t \<times> istream) = (n, s0)"
    by (cases "ReadLittleEndian U strm :: uint32_t \<times> istream")
  have "ReAllocData U n (c\<lparr>chunk_size := n\<rparr>) = Inl DoubleDelete"
    using assms by (intro ReAllocData_Deleted) simp
  then show ?thesis
    using r by (simp add: DataChunk_ReadFrom_def Chunk_ReadFrom_def)
qed

text \<open>
  What \<open>ReadFrom\<close> returns: the chunk \<open>ReAllocData\<close> made for the declared size, its array
  overwritten from the front by the bytes the stream supplied.
\<close>

lemma DataChunk_ReadFrom_Inr:
  assumes rd: "DataChunk_ReadFrom U strm c = Inr (c', strm')"
    and r: "(ReadLittleEndian U strm :: uint32_t \<times> istream) = (n, s0)"
  shows "\<exists>c1 got. ReAllocData U n (c\<lparr>chunk_size := n\<rparr>) = Inr c1
    \<and> istream_read (unat (n + n mod 2)) s0 = (got, strm')
    \<and> c' = c1\<lparr>data_ptr := store (got @ drop (length got) (data c1)) (data_ptr c1)\<rparr>"
proof -
  obtain c1 where c1: "ReAllocData U n (c\<lparr>chunk_size := n\<rparr>) = Inr c1"
    using rd r by (auto simp: DataChunk_ReadFrom_def Chunk_ReadFrom_def split: sum.splits)
  have dl: "data_length c1 = n + n mod 2" using ReAllocData_result(3) [OF c1] .
  obtain got s1 where g: "istream_read (unat (n + n mod 2)) s0 = (got, s1)"
    by (cases "istream_read (unat (n + n mod 2)) s0")
  have "c' = c1\<lparr>data_ptr := store (got @ drop (length got) (data c1)) (data_ptr c1)\<rparr>" "strm' = s1"
    using rd r c1 g dl by (simp_all add: DataChunk_ReadFrom_def Chunk_ReadFrom_def)
  then show ?thesis using c1 g by simp
qed

lemma DataChunk_ReadFrom_alignment:
  assumes rd: "DataChunk_ReadFrom U strm c = Inr (c', strm')"
    and n: "fst (ReadLittleEndian U strm :: uint32_t \<times> istream) = n"
    and n1: "n \<noteq> - 1"
  shows "chunk_size c' = n
    \<and> length (data c') = unat n + unat n mod 2
    \<and> unat (data_length c') = unat n + unat n mod 2
    \<and> length (Chunk_WriteTo c' []) = 8
    \<and> DataChunk_WriteTo c' s = Inr (s @ Chunk_WriteTo c' [] @ data c')
    \<and> (good strm' \<longrightarrow>
          data c' = take (unat n + unat n mod 2)
                      (content (snd (ReadLittleEndian U strm :: uint32_t \<times> istream))))
    \<and> (\<not> good strm' \<and> odd (unat n) \<longrightarrow> last (data c') = 0)"
proof -
  obtain s0 where r: "(ReadLittleEndian U strm :: uint32_t \<times> istream) = (n, s0)"
    using n by (cases "ReadLittleEndian U strm :: uint32_t \<times> istream") simp
  let ?N = "unat (n + n mod 2)"
  from DataChunk_ReadFrom_Inr [OF rd r]
  obtain c1 got where c1: "ReAllocData U n (c\<lparr>chunk_size := n\<rparr>) = Inr c1"
    and g: "istream_read ?N s0 = (got, strm')"
    and c': "c' = c1\<lparr>data_ptr := store (got @ drop (length got) (data c1)) (data_ptr c1)\<rparr>"
    by blast
  note res = ReAllocData_result [OF c1]
  have N: "?N = unat n + unat n mod 2" using unat_round_up_even [OF n1] .
  have lg: "length got \<le> ?N" using istream_read_length [of ?N s0] g by simp
  have dat: "data c' = got @ drop (length got) (data c1)"
  proof (cases "n + n mod 2 = 0")
    case True
    then have "data c1 = []" "got = []" using res(4) lg by simp_all
    then show ?thesis by (simp add: c' data_store split: pointer.splits)
  next
    case False
    then show ?thesis using res(6) by (auto simp: c' data_def store_def split: pointer.splits)
  qed
  have len: "length (data c') = ?N" using lg res(4) by (simp add: dat)
  have dl: "data_length c' = n + n mod 2" using res(3) by (simp add: c')
  have full: "data c' = take ?N (content s0)" if "good strm'"
  proof -
    have "got = take ?N (content s0)" and "?N \<le> length (content s0)"
      using istream_read_good [of ?N s0] g that by simp_all
    then show ?thesis using res(4) by (simp add: dat)
  qed
  have pad: "last (data c') = 0" if ng: "\<not> good strm'" and od: "odd (unat n)"
  proof -
    have short: "length got < ?N"
    proof (cases "good s0 \<and> ?N \<le> length (content s0)")
      case True
      then show ?thesis using g ng by (auto simp: istream_read_def)
    next
      case False
      then have "got = [] \<or> (got = content s0 \<and> length (content s0) < ?N)"
        using g by (auto simp: istream_read_def split: if_splits)
      moreover have "0 < ?N" using N od by (simp add: odd_iff_mod_2_eq_one)
      ultimately show ?thesis by auto
    qed
    then have "drop (length got) (data c1) \<noteq> []" using res(4) by simp
    then have "last (data c') = last (data c1)" by (simp add: dat)
    then show ?thesis using ReAllocData_pad [OF c1 n1 od] by simp
  qed
  have "DataChunk_WriteTo c' s = Inr (s @ Chunk_WriteTo c' [] @ data c')"
    using len dl by (intro DataChunk_WriteTo_whole) simp
  moreover have "chunk_size c' = n" using res(2) by (simp add: c')
  ultimately show ?thesis
    using len dl N full pad r by (simp add: length_Chunk_WriteTo)
qed

text \<open>A chunk of declared size 3 whose padding byte in the file is 0xAA.\<close>

definition odd_chunk_stream :: istream where
  "odd_chunk_stream = \<lparr>content = [3, 0, 0, 0, 1, 2, 3, 0xAA], good = True\<rparr>"

definition odd_chunk :: DataChunk where
  "odd_chunk =
     \<lparr>chunk_type = 0x61746164, chunk_size = 3, data_ptr = Array [1, 2, 3, 0xAA], data_length = 4\<rparr>"

text \<open>
  A Data chunk reallocated to 4 bytes, and the same chunk reallocated to 0 bytes after
  that: its array is deleted and its pointer is not reset.
\<close>

definition four_byte_chunk :: DataChunk where
  "four_byte_chunk =
     \<lparr>chunk_type = 0x61746164, chunk_size = 4, data_ptr = Array [0, 0, 0, 0], data_length = 4\<rparr>"

definition emptied_chunk :: DataChunk where
  "emptied_chunk =
     \<lparr>chunk_type = 0x61746164, chunk_size = 0, data_ptr = Deleted, data_length = 0\<rparr>"

text \<open>
  C3, as the claim states it, fails in three places. \<open>ReadFrom\<close> reads the whole allocated
  length from the stream, padding byte included, so after it the padding byte is the
  byte of the stream: a chunk of declared size 3 followed by the bytes 1, 2, 3, 0xAA ends
  in 0xAA. For \<open>n = 0xFFFFFFFF\<close> the allocated length \<open>n + n % 2\<close> wraps to 0 and nothing
  is allocated. And \<open>ReAllocData 0\<close> on a chunk that owns an array deletes the array and
  leaves its address in the pointer, so the next \<open>ReAllocData\<close> deletes it again.
\<close>

theorem padding_byte_not_always_zero:
  "DataChunk_ReadFrom (\<lambda>_. 0) odd_chunk_stream DataChunk_ctor
     = Inr (odd_chunk, \<lparr>content = [], good = True\<rparr>)
   \<and> chunk_size odd_chunk = 3
   \<and> data odd_chunk = [1, 2, 3, 0xAA]
   \<and> last (data odd_chunk) \<noteq> 0
   \<and> ReAllocData (\<lambda>_. 0) 0xFFFFFFFF DataChunk_ctor
     = Inr \<lparr>chunk_type = 0x61746164, chunk_size = 0xFFFFFFFF, data_ptr = Null, data_length = 0\<rparr>
   \<and> ReAllocData (\<lambda>_. 0) 4 DataChunk_ctor = Inr four_byte_chunk
   \<and> ReAllocData (\<lambda>_. 0) 0 four_byte_chunk = Inr emptied_chunk
   \<and> ReAllocData (\<lambda>_. 0) 3 emptied_chunk = Inl DoubleDelete"
  by (simp add: odd_chunk_stream_def odd_chunk_def four_byte_chunk_def emptied_chunk_def
      read_defs ctor_defs upt_rec)

text \<open>
  C3, amended. For every DataChunk whose pointer does not hold the address of a deleted
  array, \<open>ReAllocData\<close> and \<open>ReadFrom\<close> return (for one that does, the \<^verbatim>\<open>delete[]\<close> in
  \<open>ReAllocData\<close> is undefined). When \<open>ReAllocData n\<close> returns and \<open>n\<close> is not \<open>0xFFFFFFFF\<close>,
  the array has \<open>n\<close> rounded up to even bytes, \<open>chunk_size\<close> is \<open>n\<close> itself, and for odd
  \<open>n\<close> the last byte is zero. When \<open>ReadFrom\<close> of a chunk that declares \<open>n\<close> returns, the
  same lengths hold, and the array (padding byte included) is what the stream supplied,
  so the padding byte is zero only where the stream's is or where the stream ended before
  it. \<open>WriteTo\<close> writes the 8 header bytes and then exactly the array.
\<close>

theorem DataChunk_alignment:
  "(data_ptr c \<noteq> Deleted \<longrightarrow>
      (\<exists>r. ReAllocData U n c = Inr r)
    \<and> (\<exists>r strm1. DataChunk_ReadFrom U strm c = Inr (r, strm1)))
   \<and> (data_ptr c = Deleted \<longrightarrow>
      ReAllocData U n c = Inl DoubleDelete
    \<and> DataChunk_ReadFrom U strm c = Inl DoubleDelete)
   \<and> (ReAllocData U n c = Inr a \<and> n \<noteq> - 1 \<longrightarrow>
      chunk_size a = n
    \<and> length (data a) = unat n + unat n mod 2
    \<and> unat (data_length a) = unat n + unat n mod 2
    \<and> (odd (unat n) \<longrightarrow> last (data a) = 0)
    \<and> length (Chunk_WriteTo a []) = 8
    \<and> DataChunk_WriteTo a s = Inr (s @ Chunk_WriteTo a [] @ data a))
   \<and> (DataChunk_ReadFrom U strm c = Inr (c', strm')
        \<and> fst (ReadLittleEndian U strm :: uint32_t \<times> istream) = n \<and> n \<noteq> - 1 \<longrightarrow>
      chunk_size c' = n
    \<and> length (data c') = unat n + unat n mod 2
    \<and> unat (data_length c') = unat n + unat n mod 2
    \<and> length (Chunk_WriteTo c' []) = 8
    \<and> DataChunk_WriteTo c' s = Inr (s @ Chunk_WriteTo c' [] @ data c')
    \<and> (good strm' \<longrightarrow>
          data c' = take (unat n + unat n mod 2)
                      (content (snd (ReadLittleEndian U strm :: uint32_t \<times> istream))))
    \<and> (\<not> good strm' \<and> odd (unat n) \<longrightarrow> last (data c') = 0))"
  using ReAllocData_total [of c U n] DataChunk_ReadFrom_total [of c U strm]
    ReAllocData_Deleted [of c U n] DataChunk_ReadFrom_Deleted [of c U strm]
    ReAllocData_alignment [where U = U and n = n and c = c and r = a and s = s]
    DataChunk_ReadFrom_alignment [where U = U and strm = strm and c = c and c' = c'
      and strm' = strm' and n = n and s = s]
  by blast

text \<open>
  An instance: a new Data chunk reallocated to 3 bytes, and a new Data chunk read from
  the stream above.
\<close>

definition three_byte_chunk :: DataChunk where
  "three_byte_chunk =
     \<lparr>chunk_type = 0x61746164, chunk_size = 3, data_ptr = Array [7, 7, 7, 0], data_length = 4\<rparr>"

theorem DataChunk_alignment_witness:
  "data_ptr DataChunk_ctor = Null
   \<and> (3 :: uint32_t) \<noteq> - 1
   \<and> odd (unat (3 :: uint32_t))
   \<and> ReAllocData (\<lambda>_. 7) 3 DataChunk_ctor = Inr three_byte_chunk
   \<and> chunk_size three_byte_chunk = 3
   \<and> length (data three_byte_chunk) = 4
   \<and> last (data three_byte_chunk) = 0
   \<and> DataChunk_ReadFrom (\<lambda>_. 7) odd_chunk_stream DataChunk_ctor
        = Inr (odd_chunk, \<lparr>content = [], good = True\<rparr>)
   \<and> fst (ReadLittleEndian (\<lambda>_. 7) odd_chunk_stream :: uint32_t \<times> istream) = 3
   \<and> length (data odd_chunk) = 4
   \<and> DataChunk_WriteTo odd_chunk [] = Inr (Chunk_WriteTo odd_chunk [] @ [1, 2, 3, 0xAA])"
proof -
  let ?U = "\<lambda>_ :: nat. 7 :: byte"
  have p: "data_ptr DataChunk_ctor = Null" by (simp add: ctor_defs)
  have n: "(3 :: uint32_t) \<noteq> - 1" and o: "odd (unat (3 :: uint32_t))"
    by simp_all
  have ra: "ReAllocData ?U 3 DataChunk_ctor = Inr three_byte_chunk"
    by (simp add: three_byte_chunk_def read_defs ctor_defs upt_rec)
  have rd: "DataChunk_ReadFrom ?U odd_chunk_stream DataChunk_ctor
      = Inr (odd_chunk, \<lparr>content = [], good = True\<rparr>)"
    by (simp add: odd_chunk_stream_def odd_chunk_def read_defs ctor_defs upt_rec)
  have hd: "fst (ReadLittleEndian ?U odd_chunk_stream :: uint32_t \<times> istream) = 3"
    by (simp add: odd_chunk_stream_def read_defs)
  have d: "data odd_chunk = [1, 2, 3, 0xAA]" by (simp add: odd_chunk_def data_def)
  note al = DataChunk_alignment [where n = 3 and U = ?U and c = DataChunk_ctor and s = "[]"
      and strm = odd_chunk_stream and c' = odd_chunk and strm' = "\<lparr>content = [], good = True\<rparr>"
      and a = three_byte_chunk]
  have r1: "chunk_size three_byte_chunk = 3"
    "length (data three_byte_chunk) = unat (3 :: uint32_t) + unat (3 :: uint32_t) mod 2"
    "last (data three_byte_chunk) = 0"
    using al n o ra by blast+
  have r2: "DataChunk_WriteTo odd_chunk [] = Inr ([] @ Chunk_WriteTo odd_chunk [] @ data odd_chunk)"
    "length (data odd_chunk) = unat (3 :: uint32_t) + unat (3 :: uint32_t) mod 2"
    using al n rd hd by blast+
  have "length (data three_byte_chunk) = 4" "length (data odd_chunk) = 4"
    using r1(2) r2(2) by simp_all
  moreover have "DataChunk_WriteTo odd_chunk [] = Inr (Chunk_WriteTo odd_chunk [] @ [1, 2, 3, 0xAA])"
    using r2(1) d by simp
  ultimately show ?thesis
    using p n o ra r1(1) r1(3) rd hd by blast
qed

subsection \<open>Decoding 32-bit samples\<close>

text \<open>
  A 32-bit PCM file with the one sample 00 00 00 80 (the most negative value), and the
  container \<open>Load\<close> builds from it.
\<close>

definition pcm32_file :: "byte list" where
  "pcm32_file =
     [82, 73, 70, 70, 40, 0, 0, 0, 87, 65, 86, 69,
      102, 109, 116, 32, 16, 0, 0, 0, 1, 0, 1, 0, 34, 86, 0, 0, 136, 88, 1, 0, 4, 0, 32, 0,
      100, 97, 116, 97, 4, 0, 0, 0, 0, 0, 0, 128]"

definition pcm32_wave :: Wave where
  "pcm32_wave =
     \<lparr>riff_chunk = \<lparr>chunk_type = 0x46464952, chunk_size = 40, riff_type = 0x45564157\<rparr>,
      fmt_chunk = \<lparr>chunk_type = 0x20746d66, chunk_size = 16, compression = 1, nchannels = 1,
                   sample_rate = 22050, bytes_per_sec = 88200, block_align = 4,
                   bits_per_sample = 32\<rparr>,
      data_chunk = \<lparr>chunk_type = 0x61746164, chunk_size = 4, data_ptr = Array [0, 0, 0, 128],
                    data_length = 4\<rparr>,
      other_chunks = []\<rparr>"

text \<open>
  C8 fails on the code for slices of 4 bytes. \<open>GetValue\<close> shifts each byte as an
  \<^verbatim>\<open>int\<close>, so a top byte of 0x80 or more gives a negative \<^verbatim>\<open>int\<close>, whose conversion to
  \<^verbatim>\<open>unsigned long long\<close> sets the upper 32 bits. For the 32-bit PCM file with the one
  sample 00 00 00 80 the slice is read as
  \<open>0xFFFFFFFF80000000\<close>, decoded to \<open>0xFFFFFFFF00000000\<close>, and \<open>GetSample\<close> returns
  \<open>2 ^ 33 - 1\<close>; read as the unsigned value \<open>0x80000000\<close> it would decode to 0 and map
  to \<open>-1\<close>. Every double operation on this input is exact.
\<close>

theorem GetSample_32_bit_sign_extension:
  "Load U G \<lparr>content = pcm32_file, good = True\<rparr> ''in.wav'' Wave_ctor = Inr (pcm32_wave, [])
   \<and> nsamples pcm32_wave = Inr 1
   \<and> GetValue (data (data_chunk pcm32_wave)) 0 4 True = Inr 0xFFFFFFFF00000000
   \<and> GetSample pcm32_wave 0 = Inr 8589934591"
proof -
  have "Load U G \<lparr>content = pcm32_file, good = True\<rparr> ''in.wav'' Wave_ctor = Inr (pcm32_wave, [])"
    by (simp add: pcm32_file_def pcm32_wave_def read_defs ctor_defs upt_rec)
  moreover have "nsamples pcm32_wave = Inr 1"
    by (simp add: pcm32_wave_def nsamples_def unsigned_div_def bytes_per_sample_def)
  moreover have "GetValue (data (data_chunk pcm32_wave)) 0 4 True = Inr 0xFFFFFFFF00000000"
    by (simp add: pcm32_wave_def GetValue_def max_signed_value_def max_thing_value_def codec_loops
        data_def)
  moreover have "GetSample pcm32_wave 0 = Inr 8589934591"
  proof -
    have total: "ulonglong_to_double (- 4294967296) = 18446744069414584320"
      and nthings: "unsigned_to_double (Suc 0) = 1"
      and max: "ulonglong_to_double 0xFFFFFFFF = 4294967295"
      by (simp_all add: double_defs)
    have average: "double_div 18446744069414584320 1 = 18446744069414584320"
      and scaled: "double_div 18446744069414584320 4294967295 = 4294967296"
      and doubled: "double_mul 4294967296 2 = 8589934592"
      and munged: "double_sub 8589934592 1 = 8589934591"
      by (simp_all add: double_defs)
    show ?thesis
      by (simp add: pcm32_wave_def GetSample_def nsamples_def unsigned_div_def bytes_per_sample_def
          bytes_per_sample_slice_def TakeChannelAvg_def GetValue_def max_signed_value_def
          max_thing_value_def codec_loops data_def total nthings max average scaled doubled munged)
  qed
  ultimately show ?thesis by blast
qed



end
